theory Spec2Isabelle
  imports Main "HOL-Library.Word"
begin

unbundle bit_operations_syntax

section \<open>Python values\<close>

text \<open>
  Python \<open>str\<close> and \<open>bytes\<close> values are both modelled as \<open>string\<close>: a list of
  characters with code points 0..255. This is exact for \<open>bytes\<close> and for the text of an
  HTTP header (which WSGI hands over as Latin-1); text with code points above 255 is
  outside the model.

  The values that \<open>request.get_json()\<close> and \<open>json.loads\<close> produce, and that
  \<open>jsonify\<close> and \<open>json.dumps\<close> consume, are the JSON values below. An object keeps
  its members as an association list in insertion order; a \<open>float\<close> is kept as the
  text of its literal, no arithmetic is done on it.
\<close>

datatype json =
    JNull
  | JBool bool
  | JInt int
  | JFloat string
  | JStr string
  | JArr "json list"
  | JObj "(string \<times> json) list"

text \<open>Every exception the modelled code can raise is a value.\<close>

datatype exn =
    DecodeError
  | InvalidSignatureError
  | ExpiredSignatureError
  | ImmatureSignatureError
  | InvalidAlgorithmError
  | InvalidAudienceError
  | InvalidIssuedAtError
  | InvalidSubjectError
  | InvalidJTIError
  | JSONDecodeError
  | BinasciiError
  | RecursionError
  | KeyError
  | TypeError
  | AttributeError
  | ValueError
  | OverflowError
  | HTTPException nat
  | Unmodelled

fun bind_exn :: "exn + 'a \<Rightarrow> ('a \<Rightarrow> exn + 'b) \<Rightarrow> exn + 'b" where
  "bind_exn (Inl e) k = Inl e"
| "bind_exn (Inr x) k = k x"

text \<open>\<open>try: ... except (A, B): raise C\<close>: the listed exceptions are replaced.\<close>

fun reraise :: "exn list \<Rightarrow> exn \<Rightarrow> exn + 'a \<Rightarrow> exn + 'a" where
  "reraise caught e' (Inl e) = (if e \<in> set caught then Inl e' else Inl e)"
| "reraise caught e' (Inr x) = Inr x"

text \<open>
  A dict built from a list of pairs: a later pair with the same key replaces the value,
  the key keeps its first position.
\<close>

fun dict_set :: "(string \<times> json) list \<Rightarrow> string \<Rightarrow> json \<Rightarrow> (string \<times> json) list" where
  "dict_set [] k v = [(k, v)]"
| "dict_set ((k', v') # kvs) k v =
     (if k' = k then (k, v) # kvs else (k', v') # dict_set kvs k v)"

definition dict_update :: "(string \<times> json) list \<Rightarrow> (string \<times> json) list \<Rightarrow> (string \<times> json) list" where
  "dict_update d kvs = foldl (\<lambda>acc (k, v). dict_set acc k v) d kvs"

definition mk_dict :: "(string \<times> json) list \<Rightarrow> (string \<times> json) list" where
  "mk_dict kvs = dict_update [] kvs"

text \<open>\<open>d.get(k)\<close>, with \<open>None\<close> for a missing key, on any Python value.\<close>

fun py_get :: "json \<Rightarrow> string \<Rightarrow> exn + json" where
  "py_get (JObj kvs) k = Inr (case map_of kvs k of None \<Rightarrow> JNull | Some v \<Rightarrow> v)"
| "py_get _ k = Inl AttributeError"

text \<open>\<open>d[k]\<close> with a string key, on any Python value.\<close>

fun py_getitem :: "json \<Rightarrow> string \<Rightarrow> exn + json" where
  "py_getitem (JObj kvs) k = (case map_of kvs k of None \<Rightarrow> Inl KeyError | Some v \<Rightarrow> Inr v)"
| "py_getitem _ k = Inl TypeError"

text \<open>Truthiness, as \<open>not x\<close> and \<open>if x\<close> test it.\<close>

fun truthy :: "json \<Rightarrow> bool" where
  "truthy JNull = False"
| "truthy (JBool b) = b"
| "truthy (JInt n) = (n \<noteq> 0)"
| "truthy (JFloat s) = (\<exists>c \<in> set (takeWhile (\<lambda>c. c \<noteq> CHR ''e'' \<and> c \<noteq> CHR ''E'') s). c \<in> set ''123456789'' \<or> c = CHR ''N'' \<or> c = CHR ''I'')"
| "truthy (JStr s) = (s \<noteq> [])"
| "truthy (JArr xs) = (xs \<noteq> [])"
| "truthy (JObj kvs) = (kvs \<noteq> [])"

text \<open>\<open>len(x)\<close>.\<close>

fun py_len :: "json \<Rightarrow> exn + int" where
  "py_len (JStr s) = Inr (int (length s))"
| "py_len (JArr xs) = Inr (int (length xs))"
| "py_len (JObj kvs) = Inr (int (length kvs))"
| "py_len _ = Inl TypeError"

section \<open>The \<open>base64\<close> module and PyJWT's \<open>base64url\<close> helpers\<close>

definition b64_alphabet :: string where
  "b64_alphabet = ''ABCDEFGHIJKLMNOPQRSTUVWXYZabcdefghijklmnopqrstuvwxyz0123456789-_''"

definition b64_char :: "nat \<Rightarrow> char" where
  "b64_char v = b64_alphabet ! v"

text \<open>
  \<open>base64.urlsafe_b64decode\<close> first translates \<open>-\<close> to \<open>+\<close> and \<open>_\<close> to \<open>/\<close> and then
  decodes with the standard alphabet, so it reads both spellings of 62 and 63.
\<close>

definition b64_value :: "char \<Rightarrow> nat option" where
  "b64_value c =
     (let n = (of_char c :: nat) in
      if 65 \<le> n \<and> n \<le> 90 then Some (n - 65)
      else if 97 \<le> n \<and> n \<le> 122 then Some (n - 71)
      else if 48 \<le> n \<and> n \<le> 57 then Some (n + 4)
      else if c = CHR ''+'' \<or> c = CHR ''-'' then Some 62
      else if c = CHR ''/'' \<or> c = CHR ''_'' then Some 63
      else None)"

text \<open>\<open>binascii.b2a_base64\<close> in the URL-safe alphabet, with its padding.\<close>

fun b2a_base64 :: "string \<Rightarrow> string" where
  "b2a_base64 [] = []"
| "b2a_base64 [a] =
     [b64_char (of_char a div 4), b64_char (of_char a mod 4 * 16), CHR ''='', CHR ''='']"
| "b2a_base64 [a, b] =
     [b64_char (of_char a div 4), b64_char (of_char a mod 4 * 16 + of_char b div 16),
      b64_char (of_char b mod 16 * 4), CHR ''='']"
| "b2a_base64 (a # b # c # rest) =
     b64_char (of_char a div 4) # b64_char (of_char a mod 4 * 16 + of_char b div 16) #
     b64_char (of_char b mod 16 * 4 + of_char c div 64) # b64_char (of_char c mod 64) #
     b2a_base64 rest"

text \<open>PyJWT: \<open>base64.urlsafe_b64encode(input).replace(b"=", b"")\<close>.\<close>

definition base64url_encode :: "string \<Rightarrow> string" where
  "base64url_encode input = filter (\<lambda>c. c \<noteq> CHR ''='') (b2a_base64 input)"

fun emit :: "char \<Rightarrow> exn + string \<Rightarrow> exn + string" where
  "emit b (Inl e) = Inl e"
| "emit b (Inr bs) = Inr (b # bs)"

text \<open>
  \<open>binascii.a2b_base64\<close> in its default, non-strict mode (CPython 3.11 and later):
  characters outside the alphabet are skipped, a complete pad sequence ends the input,
  the bits left over in the last character are dropped, and input that stops inside a
  quad raises \<open>binascii.Error\<close>. The state is the position in the quad, the bits left
  over from the previous character and the number of pad characters seen.
\<close>

fun a2b_base64 :: "nat \<Rightarrow> nat \<Rightarrow> nat \<Rightarrow> string \<Rightarrow> exn + string" where
  "a2b_base64 quad_pos leftchar pads [] =
     (if quad_pos \<noteq> 0 then Inl BinasciiError else Inr [])"
| "a2b_base64 quad_pos leftchar pads (c # cs) =
     (if c = CHR ''='' then
        (if 2 \<le> quad_pos \<and> 4 \<le> quad_pos + (pads + 1) then Inr []
         else a2b_base64 quad_pos leftchar (if 2 \<le> quad_pos then pads + 1 else pads) cs)
      else (case b64_value c of
          None \<Rightarrow> a2b_base64 quad_pos leftchar pads cs
        | Some v \<Rightarrow>
            (if quad_pos = 0 then a2b_base64 1 v 0 cs
             else if quad_pos = 1 then
               emit (char_of (leftchar * 4 + v div 16)) (a2b_base64 2 (v mod 16) 0 cs)
             else if quad_pos = 2 then
               emit (char_of (leftchar * 16 + v div 4)) (a2b_base64 3 (v mod 4) 0 cs)
             else
               emit (char_of (leftchar * 64 + v)) (a2b_base64 0 0 0 cs))))"

text \<open>
  PyJWT's \<open>base64url_decode\<close>: pad to a multiple of four and decode. Only the
  canonical text of the bytes is taken: a segment that spells them in another way (\<open>+\<close>
  or \<open>/\<close> for a digit, bits set in the unused part of the last character, characters
  that the decoder skips, padding) is refused like one that cannot be decoded. PyJWT
  turns the \<open>binascii.Error\<close> into its own \<open>DecodeError\<close> at each call.
\<close>

definition base64url_decode :: "string \<Rightarrow> exn + string" where
  "base64url_decode input =
     (let rem = length input mod 4;
          padded = (if 0 < rem then input @ replicate (4 - rem) CHR ''='' else input)
      in bind_exn (a2b_base64 0 0 0 padded) (\<lambda>decoded.
           if base64url_encode decoded = input then Inr decoded else Inl BinasciiError))"

text \<open>\<open>str.encode("utf-8")\<close> on text with code points below 256.\<close>

definition utf8_encode :: "string \<Rightarrow> string" where
  "utf8_encode s = concat (map (\<lambda>c.
     if (of_char c :: nat) < 128 then [c]
     else [char_of (192 + (of_char c :: nat) div 64), char_of (128 + (of_char c :: nat) mod 64)]) s)"

section \<open>HMAC-SHA256 (\<open>hmac\<close>, \<open>hashlib\<close>)\<close>

type_synonym u32 = "32 word"

type_synonym sha_state = "u32 \<times> u32 \<times> u32 \<times> u32 \<times> u32 \<times> u32 \<times> u32 \<times> u32"

definition rotr :: "nat \<Rightarrow> u32 \<Rightarrow> u32" where
  "rotr n x = drop_bit n x OR push_bit (32 - n) x"

definition Ch :: "u32 \<Rightarrow> u32 \<Rightarrow> u32 \<Rightarrow> u32" where
  "Ch x y z = (x AND y) XOR (NOT x AND z)"

definition Maj :: "u32 \<Rightarrow> u32 \<Rightarrow> u32 \<Rightarrow> u32" where
  "Maj x y z = (x AND y) XOR (x AND z) XOR (y AND z)"

definition bsig0 :: "u32 \<Rightarrow> u32" where
  "bsig0 x = rotr 2 x XOR rotr 13 x XOR rotr 22 x"

definition bsig1 :: "u32 \<Rightarrow> u32" where
  "bsig1 x = rotr 6 x XOR rotr 11 x XOR rotr 25 x"

definition ssig0 :: "u32 \<Rightarrow> u32" where
  "ssig0 x = rotr 7 x XOR rotr 18 x XOR drop_bit 3 x"

definition ssig1 :: "u32 \<Rightarrow> u32" where
  "ssig1 x = rotr 17 x XOR rotr 19 x XOR drop_bit 10 x"

definition sha256_K :: "u32 list" where
  "sha256_K = [
   1116352408, 1899447441, 3049323471, 3921009573,
   961987163, 1508970993, 2453635748, 2870763221,
   3624381080, 310598401, 607225278, 1426881987,
   1925078388, 2162078206, 2614888103, 3248222580,
   3835390401, 4022224774, 264347078, 604807628,
   770255983, 1249150122, 1555081692, 1996064986,
   2554220882, 2821834349, 2952996808, 3210313671,
   3336571891, 3584528711, 113926993, 338241895,
   666307205, 773529912, 1294757372, 1396182291,
   1695183700, 1986661051, 2177026350, 2456956037,
   2730485921, 2820302411, 3259730800, 3345764771,
   3516065817, 3600352804, 4094571909, 275423344,
   430227734, 506948616, 659060556, 883997877,
   958139571, 1322822218, 1537002063, 1747873779,
   1955562222, 2024104815, 2227730452, 2361852424,
   2428436474, 2756734187, 3204031479, 3329325298]"

definition sha256_H0 :: sha_state where
  "sha256_H0 = (1779033703, 3144134277, 1013904242, 2773480762,
                1359893119, 2600822924, 528734635, 1541459225)"

text \<open>The message schedule of one block, the most recent word first.\<close>

fun schedule :: "nat \<Rightarrow> u32 list \<Rightarrow> u32 list" where
  "schedule 0 ws = ws"
| "schedule (Suc n) ws =
     schedule n ((ssig1 (ws ! 1) + ws ! 6 + ssig0 (ws ! 14) + ws ! 15) # ws)"

definition sha256_round :: "sha_state \<Rightarrow> u32 \<times> u32 \<Rightarrow> sha_state" where
  "sha256_round st kw =
     (case st of (a, b, c, d, e, f, g, h) \<Rightarrow> (case kw of (k, w) \<Rightarrow>
       (let t1 = h + bsig1 e + Ch e f g + k + w;
            t2 = bsig0 a + Maj a b c
        in (t1 + t2, a, b, c, d + t1, e, f, g))))"

definition add_state :: "sha_state \<Rightarrow> sha_state \<Rightarrow> sha_state" where
  "add_state s t =
     (case s of (a, b, c, d, e, f, g, h) \<Rightarrow> (case t of (a', b', c', d', e', f', g', h') \<Rightarrow>
       (a + a', b + b', c + c', d + d', e + e', f + f', g + g', h + h')))"

definition compress :: "sha_state \<Rightarrow> u32 list \<Rightarrow> sha_state" where
  "compress hs block =
     add_state hs (foldl sha256_round hs (zip sha256_K (rev (schedule 48 (rev block)))))"

fun be32 :: "string \<Rightarrow> u32 list" where
  "be32 (a # b # c # d # rest) =
     (push_bit 24 (of_char a) OR push_bit 16 (of_char b) OR push_bit 8 (of_char c) OR of_char d)
       # be32 rest"
| "be32 _ = []"

fun sha256_blocks :: "sha_state \<Rightarrow> u32 list \<Rightarrow> sha_state" where
  "sha256_blocks hs [] = hs"
| "sha256_blocks hs (w # ws) = sha256_blocks (compress hs (take 16 (w # ws))) (drop 16 (w # ws))"

definition be_bytes :: "nat \<Rightarrow> int \<Rightarrow> string" where
  "be_bytes k n = map (\<lambda>i. char_of (n div 256 ^ i)) (rev [0..<k])"

definition sha_pad :: "string \<Rightarrow> string" where
  "sha_pad m =
     m @ char_of (128 :: nat) # replicate ((119 - length m mod 64) mod 64) (char_of (0 :: nat))
       @ be_bytes 8 (8 * int (length m))"

definition word_bytes :: "u32 \<Rightarrow> string" where
  "word_bytes w = be_bytes 4 (uint w)"

definition sha256 :: "string \<Rightarrow> string" where
  "sha256 m =
     (case sha256_blocks sha256_H0 (be32 (sha_pad m)) of (a, b, c, d, e, f, g, h) \<Rightarrow>
        word_bytes a @ word_bytes b @ word_bytes c @ word_bytes d @
        word_bytes e @ word_bytes f @ word_bytes g @ word_bytes h)"

definition xor_bytes :: "int \<Rightarrow> string \<Rightarrow> string" where
  "xor_bytes p bs = map (\<lambda>c. char_of ((of_char c :: int) XOR p)) bs"

definition hmac_sha256 :: "string \<Rightarrow> string \<Rightarrow> string" where
  "hmac_sha256 key msg =
     (let k = (if 64 < length key then sha256 key else key);
          k0 = k @ replicate (64 - length k) (char_of (0 :: nat))
      in sha256 (xor_bytes 0x5c k0 @ sha256 (xor_bytes 0x36 k0 @ msg)))"

section \<open>The \<open>json\<close> module\<close>

subsection \<open>\<open>json.dumps(obj, separators=(",", ":"))\<close>\<close>

function dec_digits :: "int \<Rightarrow> string" where
  "dec_digits n =
     (if n < 10 then [char_of (48 + n)] else dec_digits (n div 10) @ [char_of (48 + n mod 10)])"
  by pat_completeness auto
termination
  by (relation "measure nat") auto

declare dec_digits.simps [simp del]

definition py_str_int :: "int \<Rightarrow> string" where
  "py_str_int n = (if n < 0 then CHR ''-'' # dec_digits (- n) else dec_digits n)"

definition hex_digit :: "nat \<Rightarrow> char" where
  "hex_digit v = ''0123456789abcdef'' ! v"

text \<open>
  With \<open>ensure_ascii\<close> (the default) everything outside the printable ASCII range, the
  quote and the backslash are escaped.
\<close>

definition json_escape_char :: "char \<Rightarrow> string" where
  "json_escape_char c =
     (if c = CHR 0x22 then [CHR 0x5C, CHR 0x22]
      else if c = CHR 0x5C then [CHR 0x5C, CHR 0x5C]
      else if c = CHR 0x0A then [CHR 0x5C, CHR ''n'']
      else if c = CHR 0x0D then [CHR 0x5C, CHR ''r'']
      else if c = CHR 0x09 then [CHR 0x5C, CHR ''t'']
      else if c = CHR 0x08 then [CHR 0x5C, CHR ''b'']
      else if c = CHR 0x0C then [CHR 0x5C, CHR ''f'']
      else if 32 \<le> (of_char c :: nat) \<and> (of_char c :: nat) \<le> 126 then [c]
      else [CHR 0x5C, CHR ''u'', CHR ''0'', CHR ''0'',
            hex_digit (of_char c div 16), hex_digit (of_char c mod 16)])"

definition json_dumps_str :: "string \<Rightarrow> string" where
  "json_dumps_str s = CHR 0x22 # concat (map json_escape_char s) @ [CHR 0x22]"

fun intersperse :: "string \<Rightarrow> string list \<Rightarrow> string" where
  "intersperse sep [] = []"
| "intersperse sep [x] = x"
| "intersperse sep (x # y # ys) = x @ sep @ intersperse sep (y # ys)"

fun json_dumps :: "json \<Rightarrow> string" where
  "json_dumps JNull = ''null''"
| "json_dumps (JBool b) = (if b then ''true'' else ''false'')"
| "json_dumps (JInt n) = py_str_int n"
| "json_dumps (JFloat s) = s"
| "json_dumps (JStr s) = json_dumps_str s"
| "json_dumps (JArr xs) = ''['' @ intersperse '','' (map json_dumps xs) @ '']''"
| "json_dumps (JObj kvs) =
     ''{'' @ intersperse '','' (map (\<lambda>kv. json_dumps_str (fst kv) @ '':'' @ json_dumps (snd kv)) kvs)
        @ ''}''"

subsection \<open>\<open>json.loads\<close>\<close>

definition is_ws :: "char \<Rightarrow> bool" where
  "is_ws c = (c = CHR '' '' \<or> c = CHR 0x09 \<or> c = CHR 0x0A \<or> c = CHR 0x0D)"

definition skip_ws :: "string \<Rightarrow> string" where
  "skip_ws cs = dropWhile is_ws cs"

definition is_digit :: "char \<Rightarrow> bool" where
  "is_digit c = (48 \<le> (of_char c :: nat) \<and> (of_char c :: nat) \<le> 57)"

definition hex_value :: "char \<Rightarrow> nat option" where
  "hex_value c =
     (let n = (of_char c :: nat) in
      if 48 \<le> n \<and> n \<le> 57 then Some (n - 48)
      else if 97 \<le> n \<and> n \<le> 102 then Some (n - 87)
      else if 65 \<le> n \<and> n \<le> 70 then Some (n - 55)
      else None)"

definition decode_uXXXX :: "char \<Rightarrow> char \<Rightarrow> char \<Rightarrow> char \<Rightarrow> nat option" where
  "decode_uXXXX a b c d =
     (case (hex_value a, hex_value b, hex_value c, hex_value d) of
        (Some h3, Some h2, Some h1, Some h0) \<Rightarrow> Some (h3 * 4096 + h2 * 256 + h1 * 16 + h0)
      | _ \<Rightarrow> None)"

definition backslash :: "char \<Rightarrow> char option" where
  "backslash e =
     (if e = CHR 0x22 then Some (CHR 0x22)
      else if e = CHR 0x5C then Some (CHR 0x5C)
      else if e = CHR ''/'' then Some (CHR ''/'')
      else if e = CHR ''b'' then Some (CHR 0x08)
      else if e = CHR ''f'' then Some (CHR 0x0C)
      else if e = CHR ''n'' then Some (CHR 0x0A)
      else if e = CHR ''r'' then Some (CHR 0x0D)
      else if e = CHR ''t'' then Some (CHR 0x09)
      else None)"

fun cons_str :: "char \<Rightarrow> exn + string \<times> string \<Rightarrow> exn + string \<times> string" where
  "cons_str c (Inl e) = Inl e"
| "cons_str c (Inr (s, rest)) = Inr (c # s, rest)"

text \<open>
  \<open>scanstring\<close> (strict): the text after an opening quote, up to the closing quote. An
  escape for a code point above 255 leaves the model (\<open>Unmodelled\<close>).
\<close>

fun scanstring :: "string \<Rightarrow> exn + string \<times> string" where
  "scanstring [] = Inl JSONDecodeError"
| "scanstring (c # cs) =
     (if c = CHR 0x22 then Inr ([], cs)
      else if c = CHR 0x5C then
        (case cs of
           [] \<Rightarrow> Inl JSONDecodeError
         | e # cs1 \<Rightarrow>
             if e = CHR ''u'' then
               (case cs1 of
                  h3 # h2 # h1 # h0 # cs2 \<Rightarrow>
                    (case decode_uXXXX h3 h2 h1 h0 of
                       None \<Rightarrow> Inl JSONDecodeError
                     | Some uni \<Rightarrow>
                         if uni < 256 then cons_str (char_of uni) (scanstring cs2)
                         else Inl Unmodelled)
                | _ \<Rightarrow> Inl JSONDecodeError)
             else
               (case backslash e of
                  None \<Rightarrow> Inl JSONDecodeError
                | Some ch \<Rightarrow> cons_str ch (scanstring cs1)))
      else if (of_char c :: nat) < 32 then Inl JSONDecodeError
      else cons_str c (scanstring cs))"

definition digits_value :: "string \<Rightarrow> int" where
  "digits_value ds = foldl (\<lambda>acc d. 10 * acc + (of_char d - 48)) 0 ds"

text \<open>
  \<open>NUMBER_RE\<close>: \<open>(-?(?:0|[1-9]\d*))(\.\d+)?([eE][-+]?\d+)?\<close>. The result is the
  integer part, the fraction and the exponent as matched, and the rest of the text.
\<close>

definition match_frac :: "string \<Rightarrow> string \<times> string" where
  "match_frac cs =
     (case cs of
        c # cs1 \<Rightarrow>
          if c = CHR ''.'' \<and> takeWhile is_digit cs1 \<noteq> []
          then (c # takeWhile is_digit cs1, dropWhile is_digit cs1) else ([], cs)
      | [] \<Rightarrow> ([], cs))"

definition match_exp :: "string \<Rightarrow> string \<times> string" where
  "match_exp cs =
     (case cs of
        c # cs1 \<Rightarrow>
          if c = CHR ''e'' \<or> c = CHR ''E'' then
            (let sign = (case cs1 of s # _ \<Rightarrow> if s = CHR ''+'' \<or> s = CHR ''-'' then [s] else [] | [] \<Rightarrow> []);
                 cs2 = drop (length sign) cs1
             in if takeWhile is_digit cs2 \<noteq> []
                then (c # sign @ takeWhile is_digit cs2, dropWhile is_digit cs2) else ([], cs))
          else ([], cs)
      | [] \<Rightarrow> ([], cs))"

definition match_integer :: "string \<Rightarrow> (string \<times> string) option" where
  "match_integer cs =
     (let sign = (case cs of s # _ \<Rightarrow> if s = CHR ''-'' then [s] else [] | [] \<Rightarrow> []);
          cs1 = drop (length sign) cs
      in case cs1 of
           [] \<Rightarrow> None
         | d # cs2 \<Rightarrow>
             if d = CHR ''0'' then Some (sign @ [d], cs2)
             else if is_digit d then Some (sign @ takeWhile is_digit cs1, dropWhile is_digit cs1)
             else None)"

definition match_number :: "string \<Rightarrow> (json \<times> string) option" where
  "match_number cs =
     (case match_integer cs of
        None \<Rightarrow> None
      | Some (integer, cs1) \<Rightarrow>
          (case match_frac cs1 of (frac, cs2) \<Rightarrow>
           (case match_exp cs2 of (exp, cs3) \<Rightarrow>
              if frac = [] \<and> exp = [] then
                Some (JInt (case integer of
                         s # ds \<Rightarrow> if s = CHR ''-'' then - digits_value ds else digits_value integer
                       | [] \<Rightarrow> 0), cs3)
              else Some (JFloat (integer @ frac @ exp), cs3))))"

definition starts_with :: "string \<Rightarrow> string \<Rightarrow> bool" where
  "starts_with s prefix = (take (length prefix) s = prefix)"

text \<open>
  \<open>scan_once\<close>, \<open>JSONObject\<close> and \<open>JSONArray\<close>. The first argument bounds the number of
  nested calls; when it is used up the model raises \<open>RecursionError\<close>. \<open>scan_members\<close>
  starts at the opening quote of a property name, \<open>scan_elements\<close> at a value.
\<close>

fun scan_once :: "nat \<Rightarrow> string \<Rightarrow> exn + json \<times> string"
  and scan_members :: "nat \<Rightarrow> (string \<times> json) list \<Rightarrow> string \<Rightarrow> exn + json \<times> string"
  and scan_elements :: "nat \<Rightarrow> json list \<Rightarrow> string \<Rightarrow> exn + json \<times> string"
where
  "scan_once 0 cs = Inl RecursionError"
| "scan_once (Suc n) cs =
     (case cs of
        [] \<Rightarrow> Inl JSONDecodeError
      | c # cs1 \<Rightarrow>
          if c = CHR 0x22 then
            bind_exn (scanstring cs1) (\<lambda>(s, rest). Inr (JStr s, rest))
          else if c = CHR ''{'' then
            (case skip_ws cs1 of
               [] \<Rightarrow> Inl JSONDecodeError
             | d # cs2 \<Rightarrow>
                 if d = CHR ''}'' then Inr (JObj [], cs2)
                 else if d = CHR 0x22 then scan_members n [] cs2
                 else Inl JSONDecodeError)
          else if c = CHR ''['' then
            (case skip_ws cs1 of
               [] \<Rightarrow> Inl JSONDecodeError
             | d # cs2 \<Rightarrow>
                 if d = CHR '']'' then Inr (JArr [], cs2)
                 else scan_elements n [] (d # cs2))
          else if starts_with cs ''null'' then Inr (JNull, drop 4 cs)
          else if starts_with cs ''true'' then Inr (JBool True, drop 4 cs)
          else if starts_with cs ''false'' then Inr (JBool False, drop 5 cs)
          else (case match_number cs of
              Some r \<Rightarrow> Inr r
            | None \<Rightarrow>
                if starts_with cs ''NaN'' then Inr (JFloat ''NaN'', drop 3 cs)
                else if starts_with cs ''Infinity'' then Inr (JFloat ''Infinity'', drop 8 cs)
                else if starts_with cs ''-Infinity'' then Inr (JFloat ''-Infinity'', drop 9 cs)
                else Inl JSONDecodeError))"
| "scan_members 0 pairs cs = Inl RecursionError"
| "scan_members (Suc n) pairs cs =
     bind_exn (scanstring cs) (\<lambda>(key, cs1).
       (case skip_ws cs1 of
          [] \<Rightarrow> Inl JSONDecodeError
        | c # cs2 \<Rightarrow>
            if c \<noteq> CHR '':'' then Inl JSONDecodeError
            else bind_exn (scan_once n (skip_ws cs2)) (\<lambda>(v, cs3).
              (case skip_ws cs3 of
                 [] \<Rightarrow> Inl JSONDecodeError
               | d # cs4 \<Rightarrow>
                   if d = CHR ''}'' then Inr (JObj (mk_dict (pairs @ [(key, v)])), cs4)
                   else if d \<noteq> CHR '','' then Inl JSONDecodeError
                   else (case skip_ws cs4 of
                       [] \<Rightarrow> Inl JSONDecodeError
                     | q # cs5 \<Rightarrow>
                         if q = CHR 0x22 then scan_members n (pairs @ [(key, v)]) cs5
                         else Inl JSONDecodeError)))))"
| "scan_elements 0 values cs = Inl RecursionError"
| "scan_elements (Suc n) values cs =
     bind_exn (scan_once n cs) (\<lambda>(v, cs1).
       (case skip_ws cs1 of
          [] \<Rightarrow> Inl JSONDecodeError
        | d # cs2 \<Rightarrow>
            if d = CHR '']'' then Inr (JArr (values @ [v]), cs2)
            else if d \<noteq> CHR '','' then Inl JSONDecodeError
            else scan_elements n (values @ [v]) (skip_ws cs2)))"

text \<open>
  \<open>json.loads\<close> on \<open>bytes\<close>. A text with a NUL or a non-ASCII byte (UTF-16, UTF-32, a
  byte order mark, UTF-8 beyond ASCII) leaves the model; every other text is ASCII and
  is its own UTF-8 decoding. The bound on nested calls is the length of the text.
\<close>

definition json_loads :: "string \<Rightarrow> exn + json" where
  "json_loads s =
     (if \<exists>c \<in> set s. (of_char c :: nat) = 0 \<or> 128 \<le> (of_char c :: nat) then Inl Unmodelled
      else bind_exn (scan_once (Suc (length s)) (skip_ws s)) (\<lambda>(v, rest).
             if skip_ws rest = [] then Inr v else Inl JSONDecodeError))"

section \<open>PyJWT: \<open>jwt.encode\<close> and \<open>jwt.decode\<close> for HS256\<close>

text \<open>
  The application names no release of PyJWT, so the functions of this section follow
  the current one, PyJWT 2.15 (\<open>api_jws.py\<close>, \<open>api_jwt.py\<close>, \<open>algorithms.py\<close>,
  \<open>utils.py\<close>), on the path the application takes: a \<open>str\<close> key, the algorithm HS256, no
  audience, no issuer, no subject, no leeway, default options. Older releases differ in
  what they refuse: they take a segment in any spelling that the base64 decoder reads,
  and before 2.10 they do not look at \<open>sub\<close> and \<open>jti\<close>. Time is an integer number of
  microseconds since the epoch, the resolution of \<open>datetime.datetime\<close>.
\<close>

text \<open>A value of the payload given to \<open>jwt.encode\<close>: a \<open>datetime\<close> or a JSON value.\<close>

datatype claim = Datetime int | Value json

text \<open>\<open>timegm(dt.utctimetuple())\<close>: whole seconds, the microseconds are dropped.\<close>

definition timegm :: "int \<Rightarrow> int" where
  "timegm dt = dt div 1000000"

text \<open>
  \<open>exp\<close>, \<open>iat\<close> and \<open>nbf\<close> given as \<open>datetime\<close> become integers; any other
  \<open>datetime\<close> is not JSON serializable.
\<close>

fun to_json_payload :: "(string \<times> claim) list \<Rightarrow> exn + (string \<times> json) list" where
  "to_json_payload [] = Inr []"
| "to_json_payload ((k, Value v) # kvs) =
     bind_exn (to_json_payload kvs) (\<lambda>r. Inr ((k, v) # r))"
| "to_json_payload ((k, Datetime dt) # kvs) =
     (if k \<in> {''exp'', ''iat'', ''nbf''}
      then bind_exn (to_json_payload kvs) (\<lambda>r. Inr ((k, JInt (timegm dt)) # r))
      else Inl TypeError)"

definition jwt_header :: json where
  "jwt_header = JObj [(''alg'', JStr ''HS256''), (''typ'', JStr ''JWT'')]"

definition jws_encode :: "string \<Rightarrow> string \<Rightarrow> string" where
  "jws_encode json_payload key =
     (let signing_input =
            base64url_encode (utf8_encode (json_dumps jwt_header)) @ ''.'' @
            base64url_encode json_payload;
          signature = hmac_sha256 (utf8_encode key) signing_input
      in signing_input @ ''.'' @ base64url_encode signature)"

definition jwt_encode :: "(string \<times> claim) list \<Rightarrow> string \<Rightarrow> exn + string" where
  "jwt_encode payload key =
     bind_exn (to_json_payload payload) (\<lambda>p.
       Inr (jws_encode (utf8_encode (json_dumps (JObj p))) key))"

text \<open>\<open>s.rsplit(b".", 1)\<close> and \<open>s.split(b".", 1)\<close>, \<open>None\<close> when there is no dot.\<close>

definition split1 :: "string \<Rightarrow> (string \<times> string) option" where
  "split1 s =
     (if CHR ''.'' \<in> set s
      then Some (takeWhile (\<lambda>c. c \<noteq> CHR ''.'') s, tl (dropWhile (\<lambda>c. c \<noteq> CHR ''.'') s))
      else None)"

definition rsplit1 :: "string \<Rightarrow> (string \<times> string) option" where
  "rsplit1 s =
     (case split1 (rev s) of
        None \<Rightarrow> None
      | Some (a, b) \<Rightarrow> Some (rev b, rev a))"

text \<open>
  \<open>PyJWS._load\<close>: the payload bytes, the signing input, the header and the signature.
  \<open>except ValueError\<close> also catches \<open>json.JSONDecodeError\<close>, its subclass.
\<close>

definition jws_load :: "string \<Rightarrow> exn + string \<times> string \<times> json \<times> string" where
  "jws_load token =
     (case rsplit1 (utf8_encode token) of
        None \<Rightarrow> Inl DecodeError
      | Some (signing_input, crypto_segment) \<Rightarrow>
     (case split1 signing_input of
        None \<Rightarrow> Inl DecodeError
      | Some (header_segment, payload_segment) \<Rightarrow>
          bind_exn (reraise [TypeError, BinasciiError] DecodeError
                      (base64url_decode header_segment)) (\<lambda>header_data.
          bind_exn (reraise [ValueError, JSONDecodeError] DecodeError
                      (json_loads header_data)) (\<lambda>header.
            (case header of
               JObj _ \<Rightarrow>
                 bind_exn (reraise [TypeError, BinasciiError] DecodeError
                             (base64url_decode payload_segment)) (\<lambda>payload.
                 bind_exn (reraise [TypeError, BinasciiError] DecodeError
                             (base64url_decode crypto_segment)) (\<lambda>signature.
                   Inr (payload, signing_input, header, signature)))
             | _ \<Rightarrow> Inl DecodeError)))))"

text \<open>
  \<open>PyJWS._verify_signature\<close>. Of the algorithms only HS256 is modelled; its
  \<open>verify\<close> is \<open>hmac.compare_digest(sig, self.sign(msg, key))\<close>.
\<close>

definition verify_signature :: "string \<Rightarrow> json \<Rightarrow> string \<Rightarrow> string \<Rightarrow> string list \<Rightarrow> exn + unit" where
  "verify_signature signing_input header signature key algorithms =
     (case py_getitem header ''alg'' of
        Inl _ \<Rightarrow> Inl InvalidAlgorithmError
      | Inr alg \<Rightarrow>
          if \<not> truthy alg \<or> alg \<notin> JStr ` set algorithms then Inl InvalidAlgorithmError
          else if alg \<noteq> JStr ''HS256'' then Inl Unmodelled
          else if signature = hmac_sha256 (utf8_encode key) signing_input then Inr ()
          else Inl InvalidSignatureError)"

definition jws_decode :: "string \<Rightarrow> string \<Rightarrow> string list \<Rightarrow> exn + string" where
  "jws_decode token key algorithms =
     bind_exn (jws_load token) (\<lambda>(payload, signing_input, header, signature).
       if py_get header ''b64'' = Inr (JBool False) then Inl DecodeError
       else bind_exn (verify_signature signing_input header signature key algorithms) (\<lambda>_.
              Inr payload))"

text \<open>
  \<open>int(x)\<close> for a \<open>float\<close>. The value of the literal, \<open>num / den\<close> with \<open>0 \<le> num\<close> and
  \<open>0 < den\<close>, is first rounded to the nearest double (53 significant bits, ties to the
  even one) and then cut down to an integer. Below 1 only the values that are within
  2 to the power -54 of it are rounded up to 1; a value that is rounded to 2 to the
  power 1024 is infinite, and \<open>int\<close> raises \<open>OverflowError\<close> for it.
\<close>

definition round_half_even :: "int \<Rightarrow> int \<Rightarrow> int" where
  "round_half_even a b =
     (let q = a div b; r = a mod b
      in if 2 * r < b then q else if b < 2 * r then q + 1 else if even q then q else q + 1)"

function bit_length :: "int \<Rightarrow> nat" where
  "bit_length n = (if n \<le> 0 then 0 else Suc (bit_length (n div 2)))"
  by pat_completeness auto
termination
  by (relation "measure nat") auto

declare bit_length.simps [simp del]

definition double_trunc :: "int \<Rightarrow> int \<Rightarrow> exn + int" where
  "double_trunc num den =
     (if num < den then Inr (if den * (2 ^ 54 - 1) \<le> num * 2 ^ 54 then 1 else 0)
      else
        let t = bit_length (num div den) - 1
        in if t \<le> 52 then Inr (round_half_even (num * 2 ^ (52 - t)) den div 2 ^ (52 - t))
           else
             let d = round_half_even num (den * 2 ^ (t - 52)) * 2 ^ (t - 52)
             in if 2 ^ 1024 \<le> d then Inl OverflowError else Inr d)"

text \<open>
  The text of a \<open>float\<close> is what \<open>json.loads\<close> matched: \<open>NaN\<close>, \<open>Infinity\<close>, \<open>-Infinity\<close>,
  or an integer part followed by a fraction, an exponent or both.
\<close>

definition float_literal_int :: "string \<Rightarrow> exn + int" where
  "float_literal_int s =
     (if s = ''NaN'' then Inl ValueError
      else if s = ''Infinity'' \<or> s = ''-Infinity'' then Inl OverflowError
      else
        let neg = (take 1 s = ''-'');
            s1 = (if neg then drop 1 s else s);
            s2 = dropWhile is_digit s1;
            dot = (take 1 s2 = ''.'');
            frac = (if dot then takeWhile is_digit (drop 1 s2) else []);
            s3 = (if dot then dropWhile is_digit (drop 1 s2) else s2);
            s4 = drop 1 s3;
            ex = (if take 1 s4 = ''-'' then - digits_value (drop 1 s4)
                  else if take 1 s4 = ''+'' then digits_value (drop 1 s4)
                  else digits_value s4);
            m = digits_value (takeWhile is_digit s1 @ frac);
            e10 = ex - int (length frac)
        in bind_exn (if 0 \<le> e10 then double_trunc (m * 10 ^ nat e10) 1
                     else double_trunc m (10 ^ nat (- e10)))
             (\<lambda>n. Inr (if neg then - n else n)))"

text \<open>
  \<open>int(x)\<close> for a \<open>str\<close>: white space around the number, a sign, and decimal digits
  that single underscores may separate. A text of more than 4300 digits is refused as
  well (CPython 3.11).
\<close>

definition is_space :: "char \<Rightarrow> bool" where
  "is_space c = ((of_char c :: nat) \<in> {9, 10, 11, 12, 13, 32, 133, 160})"

fun underscores_single :: "string \<Rightarrow> bool" where
  "underscores_single (a # b # cs) =
     (\<not> (a = CHR ''_'' \<and> b = CHR ''_'') \<and> underscores_single (b # cs))"
| "underscores_single _ = True"

definition str_literal_int :: "string \<Rightarrow> exn + int" where
  "str_literal_int s =
     (let t = rev (dropWhile is_space (rev (dropWhile is_space s)));
          neg = (take 1 t = ''-'');
          body = (if take 1 t = ''-'' \<or> take 1 t = ''+'' then drop 1 t else t);
          ds = filter is_digit body
      in if body = [] \<or> \<not> is_digit (hd body) \<or> \<not> is_digit (last body)
            \<or> (\<exists>c \<in> set body. \<not> is_digit c \<and> c \<noteq> CHR ''_'')
            \<or> \<not> underscores_single body \<or> 4300 < length ds
         then Inl ValueError
         else Inr (if neg then - digits_value ds else digits_value ds))"

text \<open>\<open>int(payload[k])\<close> on a claim.\<close>

fun py_int :: "json \<Rightarrow> exn + int" where
  "py_int (JInt n) = Inr n"
| "py_int (JBool b) = Inr (if b then 1 else 0)"
| "py_int (JFloat s) = float_literal_int s"
| "py_int (JStr s) = str_literal_int s"
| "py_int _ = Inl TypeError"

text \<open>
  \<open>PyJWT._validate_exp\<close>: the token has expired when \<open>exp <= now\<close>, with \<open>exp\<close> in
  seconds and \<open>now\<close> the clock of the decoder.
\<close>

definition validate_exp :: "(string \<times> json) list \<Rightarrow> int \<Rightarrow> exn + unit" where
  "validate_exp payload now =
     (case map_of payload ''exp'' of
        None \<Rightarrow> Inr ()
      | Some v \<Rightarrow>
          bind_exn (reraise [ValueError] DecodeError (py_int v)) (\<lambda>exp.
            if exp * 1000000 \<le> now then Inl ExpiredSignatureError else Inr ()))"

definition validate_iat :: "(string \<times> json) list \<Rightarrow> int \<Rightarrow> exn + unit" where
  "validate_iat payload now =
     (case map_of payload ''iat'' of
        None \<Rightarrow> Inr ()
      | Some v \<Rightarrow>
          bind_exn (reraise [ValueError] InvalidIssuedAtError (py_int v)) (\<lambda>iat.
            if now < iat * 1000000 then Inl ImmatureSignatureError else Inr ()))"

definition validate_nbf :: "(string \<times> json) list \<Rightarrow> int \<Rightarrow> exn + unit" where
  "validate_nbf payload now =
     (case map_of payload ''nbf'' of
        None \<Rightarrow> Inr ()
      | Some v \<Rightarrow>
          bind_exn (reraise [ValueError] DecodeError (py_int v)) (\<lambda>nbf.
            if now < nbf * 1000000 then Inl ImmatureSignatureError else Inr ()))"

text \<open>No audience is expected: a token that names one is refused.\<close>

definition validate_aud :: "(string \<times> json) list \<Rightarrow> exn + unit" where
  "validate_aud payload =
     (case map_of payload ''aud'' of
        None \<Rightarrow> Inr ()
      | Some v \<Rightarrow> if truthy v then Inl InvalidAudienceError else Inr ())"

text \<open>A subject and a token identifier, when the token names one, are strings.\<close>

definition validate_sub :: "(string \<times> json) list \<Rightarrow> exn + unit" where
  "validate_sub payload =
     (case map_of payload ''sub'' of
        None \<Rightarrow> Inr ()
      | Some v \<Rightarrow> (case v of JStr _ \<Rightarrow> Inr () | _ \<Rightarrow> Inl InvalidSubjectError))"

definition validate_jti :: "(string \<times> json) list \<Rightarrow> exn + unit" where
  "validate_jti payload =
     (case map_of payload ''jti'' of
        None \<Rightarrow> Inr ()
      | Some v \<Rightarrow> (case v of JStr _ \<Rightarrow> Inr () | _ \<Rightarrow> Inl InvalidJTIError))"

definition validate_claims :: "(string \<times> json) list \<Rightarrow> int \<Rightarrow> exn + unit" where
  "validate_claims payload now =
     bind_exn (validate_iat payload now) (\<lambda>_.
     bind_exn (validate_nbf payload now) (\<lambda>_.
     bind_exn (validate_exp payload now) (\<lambda>_.
     bind_exn (validate_aud payload) (\<lambda>_.
     bind_exn (validate_sub payload) (\<lambda>_.
       validate_jti payload)))))"

text \<open>\<open>jwt.decode(token, key, algorithms=...)\<close>, read at the time \<open>now\<close>.\<close>

definition jwt_decode :: "string \<Rightarrow> string \<Rightarrow> string list \<Rightarrow> int \<Rightarrow> exn + json" where
  "jwt_decode token key algorithms now =
     bind_exn (jws_decode token key algorithms) (\<lambda>payload_bytes.
     bind_exn (reraise [ValueError, JSONDecodeError] DecodeError (json_loads payload_bytes))
       (\<lambda>payload.
         (case payload of
            JObj kvs \<Rightarrow> bind_exn (validate_claims kvs now) (\<lambda>_. Inr payload)
          | _ \<Rightarrow> Inl DecodeError)))"

section \<open>\<open>datetime\<close>\<close>

text \<open>
  A \<open>datetime.datetime\<close> in UTC is its number of microseconds since the epoch;
  \<open>datetime.max\<close> is the last microsecond of the year 9999.
\<close>

definition datetime_max :: int where
  "datetime_max = 253402300799999999"

definition timedelta_hours :: "int \<Rightarrow> int" where
  "timedelta_hours h = h * 3600 * 1000000"

definition datetime_add :: "int \<Rightarrow> int \<Rightarrow> exn + int" where
  "datetime_add dt delta = (if datetime_max < dt + delta then Inl OverflowError else Inr (dt + delta))"

definition zero_pad :: "nat \<Rightarrow> int \<Rightarrow> string" where
  "zero_pad width n = replicate (width - length (dec_digits n)) (CHR ''0'') @ dec_digits n"

text \<open>The civil date (year, month, day) of a day number counted from 1970-01-01.\<close>

definition civil_from_days :: "int \<Rightarrow> int \<times> int \<times> int" where
  "civil_from_days days =
     (let z = days + 719468;
          era = z div 146097;
          doe = z - era * 146097;
          yoe = (doe - doe div 1460 + doe div 36524 - doe div 146096) div 365;
          doy = doe - (365 * yoe + yoe div 4 - yoe div 100);
          mp = (5 * doy + 2) div 153;
          d = doy - (153 * mp + 2) div 5 + 1;
          m = (if mp < 10 then mp + 3 else mp - 9);
          y = yoe + era * 400 + (if m \<le> 2 then 1 else 0)
      in (y, m, d))"

text \<open>\<open>dt.isoformat()\<close>: the fraction is left out when the microseconds are zero.\<close>

definition isoformat :: "int \<Rightarrow> string" where
  "isoformat dt =
     (let secs = dt div 1000000;
          us = dt mod 1000000;
          sod = secs mod 86400
      in case civil_from_days (secs div 86400) of (y, m, d) \<Rightarrow>
           zero_pad 4 y @ ''-'' @ zero_pad 2 m @ ''-'' @ zero_pad 2 d @ ''T'' @
           zero_pad 2 (sod div 3600) @ '':'' @ zero_pad 2 (sod mod 3600 div 60) @ '':'' @
           zero_pad 2 (sod mod 60) @ (if us = 0 then [] else ''.'' @ zero_pad 6 us))"

section \<open>The application (\<open>app.py\<close>)\<close>

text \<open>
  What a handler reads of the request: its headers, and what \<open>request.get_json()\<close>
  gives for its body (a value, or the exception Flask raises for a body that is not
  JSON).
\<close>

record request =
  headers :: "string \<rightharpoonup> string"
  get_json :: "exn + json"

text \<open>\<open>jsonify(body), status\<close>.\<close>

record response =
  status :: nat
  body :: json

text \<open>The lines written by \<open>print\<close>, by the values they are formatted from.\<close>

datatype log_line =
    Login_attempt json
  | Login_successful json
  | Login_failed json
  | New_event_created json json

text \<open>
  The state of the process: the module-level \<open>users\<close> dict, \<open>app.config['SECRET_KEY']\<close>
  and the standard output.
\<close>

record app =
  users :: "(string \<times> json) list"
  SECRET_KEY :: string
  stdout :: "log_line list"

definition startup :: app where
  "startup = \<lparr>
     users = [
       (''admin'', JObj [(''password'', JStr ''admin123''), (''role'', JStr ''administrator''),
                         (''username'', JStr ''admin'')]),
       (''user'', JObj [(''password'', JStr ''user123''), (''role'', JStr ''analyst''),
                        (''username'', JStr ''user'')]),
       (''operator'', JObj [(''password'', JStr ''operator123''), (''role'', JStr ''operator''),
                            (''username'', JStr ''operator'')])],
     SECRET_KEY = ''fusioncore-secret-key-2024'',
     stdout = [] \<rparr>"

definition print :: "log_line \<Rightarrow> app \<Rightarrow> app" where
  "print l s = s\<lparr>stdout := stdout s @ [l]\<rparr>"

type_synonym result = "(exn + response) \<times> app"

text \<open>A view function: the state, the request and the reading of the clock it makes.\<close>

type_synonym view = "app \<Rightarrow> request \<Rightarrow> int \<Rightarrow> result"

definition jsonify :: "(string \<times> json) list \<Rightarrow> nat \<Rightarrow> response" where
  "jsonify d code = \<lparr>status = code, body = JObj (mk_dict d)\<rparr>"

text \<open>\<open>k in d\<close> for a dict with \<open>str\<close> keys: a list or a dict is not hashable.\<close>

fun dict_contains :: "(string \<times> json) list \<Rightarrow> json \<Rightarrow> exn + bool" where
  "dict_contains d (JStr k) = Inr (k \<in> fst ` set d)"
| "dict_contains d (JArr xs) = Inl TypeError"
| "dict_contains d (JObj kvs) = Inl TypeError"
| "dict_contains d _ = Inr False"

text \<open>\<open>d[k]\<close> for the same dict and a key that may be any value.\<close>

fun dict_getitem :: "(string \<times> json) list \<Rightarrow> json \<Rightarrow> exn + json" where
  "dict_getitem d (JStr k) = (case map_of d k of None \<Rightarrow> Inl KeyError | Some v \<Rightarrow> Inr v)"
| "dict_getitem d (JArr xs) = Inl TypeError"
| "dict_getitem d (JObj kvs) = Inl TypeError"
| "dict_getitem d _ = Inl KeyError"

subsection \<open>\<open>token_required\<close>\<close>

definition missing_response :: response where
  "missing_response = jsonify [(''message'', JStr ''Token is missing!'')] 401"

definition invalid_response :: response where
  "invalid_response = jsonify [(''message'', JStr ''Token is invalid!'')] 401"

text \<open>The body of the \<open>try\<close> statement: the value of \<open>current_user\<close>, or what was raised.\<close>

definition try_body :: "app \<Rightarrow> string \<Rightarrow> int \<Rightarrow> exn + json" where
  "try_body s token now =
     (let token = (if starts_with token ''Bearer '' then drop 7 token else token) in
      bind_exn (jwt_decode token (SECRET_KEY s) [''HS256''] now) (\<lambda>data.
        py_getitem data ''user''))"

text \<open>
  \<open>decorated\<close>, the function that \<open>token_required(f)\<close> returns. \<open>not token\<close> holds for
  \<open>None\<close> and for the empty string; the bare \<open>except:\<close> catches everything. \<open>now\<close> is
  the clock as \<open>jwt.decode\<close> reads it, \<open>now'\<close> as \<open>f\<close> reads it afterwards.
\<close>

definition token_required :: "(json \<Rightarrow> view) \<Rightarrow> app \<Rightarrow> request \<Rightarrow> int \<Rightarrow> int \<Rightarrow> result" where
  "token_required f s req now now' =
     (case headers req ''Authorization'' of
        None \<Rightarrow> (Inr missing_response, s)
      | Some token \<Rightarrow>
          if token = [] then (Inr missing_response, s)
          else (case try_body s token now of
              Inl _ \<Rightarrow> (Inr invalid_response, s)
            | Inr current_user \<Rightarrow> f current_user s req now'))"

subsection \<open>\<open>login\<close>\<close>

definition login_failure :: response where
  "login_failure = jsonify [(''success'', JBool False), (''message'', JStr ''Invalid credentials'')] 401"

text \<open>\<open>username in users and users[username]['password'] == password\<close>.\<close>

definition credentials_ok :: "app \<Rightarrow> json \<Rightarrow> json \<Rightarrow> exn + bool" where
  "credentials_ok s username password =
     bind_exn (dict_contains (users s) username) (\<lambda>known.
       if \<not> known then Inr False
       else bind_exn (dict_getitem (users s) username) (\<lambda>record.
            bind_exn (py_getitem record ''password'') (\<lambda>stored.
              Inr (stored = password))))"

definition login :: view where
  "login s req now =
     (case get_json req of
        Inl e \<Rightarrow> (Inl e, s)
      | Inr data \<Rightarrow>
     (case bind_exn (py_get data ''username'') (\<lambda>username.
           bind_exn (py_get data ''password'') (\<lambda>password. Inr (username, password))) of
        Inl e \<Rightarrow> (Inl e, s)
      | Inr (username, password) \<Rightarrow>
          let s1 = print (Login_attempt username) s in
          (case credentials_ok s1 username password of
             Inl e \<Rightarrow> (Inl e, s1)
           | Inr False \<Rightarrow> (Inr login_failure, print (Login_failed username) s1)
           | Inr True \<Rightarrow>
               (case bind_exn (dict_getitem (users s1) username) (\<lambda>record.
                     bind_exn (py_getitem record ''role'') (\<lambda>role.
                       let user_data = JObj [(''username'', username), (''role'', role)] in
                       bind_exn (datetime_add now (timedelta_hours 24)) (\<lambda>exp.
                       bind_exn (jwt_encode [(''user'', Value user_data), (''exp'', Datetime exp)]
                                   (SECRET_KEY s1)) (\<lambda>token.
                         Inr (token, user_data))))) of
                  Inl e \<Rightarrow> (Inl e, s1)
                | Inr (token, user_data) \<Rightarrow>
                    (Inr (jsonify [(''success'', JBool True), (''token'', JStr token),
                                   (''user'', user_data)] 200),
                     print (Login_successful username) s1)))))"

subsection \<open>The protected views\<close>

definition get_dashboard :: "json \<Rightarrow> view" where
  "get_dashboard current_user s req now =
     (Inr (jsonify [(''total_events'', JInt 156), (''total_correlations'', JInt 42),
                    (''sigint_events'', JInt 98), (''buas_events'', JInt 58),
                    (''recent_events'', JInt 23)] 200), s)"

definition event :: "int \<Rightarrow> string \<Rightarrow> string \<Rightarrow> string \<Rightarrow> string \<Rightarrow> int \<Rightarrow> string \<Rightarrow> string \<Rightarrow> int \<Rightarrow> json" where
  "event i ty descr lat lon conf src ts n =
     JObj [(''id'', JInt i), (''event_type'', JStr ty), (''description'', JStr descr),
           (''latitude'', JFloat lat), (''longitude'', JFloat lon), (''confidence'', JInt conf),
           (''source_id'', JStr src), (''timestamp'', JStr ts), (''correlation_count'', JInt n)]"

definition get_events :: "json \<Rightarrow> view" where
  "get_events current_user s req now =
     (Inr (jsonify [(''events'', JArr [
        event 1 ''SIGINT'' ''Encrypted signal intercept - Pattern analysis required''
          ''9.082'' ''8.6753'' 3 ''SIG_45872'' ''2024-01-14T10:30:00Z'' 3,
        event 2 ''BUAS'' ''Unauthorized drone surveillance activity detected''
          ''9.182'' ''8.7753'' 2 ''BUAS_39164'' ''2024-01-14T11:15:00Z'' 2,
        event 3 ''SIGINT'' ''High-frequency transmission - Potential threat''
          ''9.282'' ''8.8753'' 3 ''SIG_72651'' ''2024-01-14T12:45:00Z'' 1,
        event 4 ''BUAS'' ''Multiple drone swarm formation detected''
          ''9.382'' ''8.9753'' 3 ''BUAS_18395'' ''2024-01-14T13:20:00Z'' 4])] 200), s)"

definition correlation :: "int \<Rightarrow> int \<Rightarrow> string \<Rightarrow> string \<Rightarrow> string \<Rightarrow> string \<Rightarrow> json" where
  "correlation e1 e2 ty conf d1 d2 =
     JObj [(''event1_id'', JInt e1), (''event2_id'', JInt e2), (''correlation_type'', JStr ty),
           (''confidence'', JFloat conf), (''event1_desc'', JStr d1), (''event2_desc'', JStr d2)]"

definition get_correlations :: "json \<Rightarrow> view" where
  "get_correlations current_user s req now =
     (Inr (jsonify [(''correlations'', JArr [
        correlation 1 2 ''SIGINT-BUAS'' ''0.85''
          ''Encrypted signal intercept'' ''Drone surveillance activity'',
        correlation 1 3 ''SIGINT-SIGINT'' ''0.92''
          ''Encrypted signal intercept'' ''High-frequency transmission'',
        correlation 2 4 ''BUAS-BUAS'' ''0.78''
          ''Drone surveillance activity'' ''Multiple drone swarm'',
        correlation 3 4 ''SIGINT-BUAS'' ''0.67''
          ''High-frequency transmission'' ''Multiple drone swarm''])] 200), s)"

text \<open>\<open>{'id': len(data) + 5, **data, ...}\<close>: only a dict can be unpacked with \<open>**\<close>.\<close>

definition create_event :: "json \<Rightarrow> view" where
  "create_event current_user s req now =
     (case get_json req of
        Inl e \<Rightarrow> (Inl e, s)
      | Inr data \<Rightarrow>
     (case py_getitem current_user ''username'' of
        Inl e \<Rightarrow> (Inl e, s)
      | Inr username \<Rightarrow>
          let s1 = print (New_event_created username data) s in
          (case py_len data of
             Inl e \<Rightarrow> (Inl e, s1)
           | Inr n \<Rightarrow>
               (case data of
                  JObj kvs \<Rightarrow>
                    (Inr (jsonify [
                       (''success'', JBool True),
                       (''message'', JStr ''Intelligence event submitted successfully''),
                       (''event'', JObj (mk_dict ([(''id'', JInt (n + 5))] @ kvs @
                          [(''timestamp'', JStr (isoformat now @ ''Z'')),
                           (''correlation_count'', JInt 0)])))] 200), s1)
                | _ \<Rightarrow> (Inl TypeError, s1)))))"

definition health_check :: view where
  "health_check s req now =
     (Inr (jsonify [(''status'', JStr ''healthy''), (''service'', JStr ''Fusion Core API'')] 200), s)"

section \<open>Predicates of the specification\<close>

text \<open>
  The credential store and the secret key after an operation are those before it:
  \<open>r\<close> is what the operation returned from the state \<open>s\<close>.
\<close>

definition config_kept :: "app \<Rightarrow> result \<Rightarrow> bool" where
  "config_kept s r = (users (snd r) = users s \<and> SECRET_KEY (snd r) = SECRET_KEY s)"

text \<open>A character that cannot continue the text of a number.\<close>

definition ends_number :: "char \<Rightarrow> bool" where
  "ends_number r = (\<not> is_digit r \<and> r \<noteq> CHR ''.'' \<and> r \<noteq> CHR ''e'' \<and> r \<noteq> CHR ''E'')"

text \<open>Printable ASCII: the characters that \<open>json.dumps\<close> writes.\<close>

definition printable :: "char \<Rightarrow> bool" where
  "printable c = (32 \<le> (of_char c :: nat) \<and> (of_char c :: nat) \<le> 126)"

text \<open>
  The first two segments of the token that \<open>jwt.encode\<close> builds for a serialized
  payload: the text that is signed.
\<close>

definition signing_input_of :: "string \<Rightarrow> string" where
  "signing_input_of json_payload =
     base64url_encode (json_dumps jwt_header) @ CHR ''.'' # base64url_encode json_payload"

text \<open>
  The JSON payload of the token that \<open>login\<close> issues for a user, and the token itself:
  \<open>user_payload u r e\<close> is \<open>{"user": {"username": u, "role": r}, "exp": e}\<close>.
\<close>

definition user_data :: "string \<Rightarrow> string \<Rightarrow> json" where
  "user_data u r = JObj [(''username'', JStr u), (''role'', JStr r)]"

definition user_payload :: "string \<Rightarrow> string \<Rightarrow> int \<Rightarrow> json" where
  "user_payload u r e = JObj [(''user'', user_data u r), (''exp'', JInt e)]"

definition user_token :: "string \<Rightarrow> string \<Rightarrow> string \<Rightarrow> int \<Rightarrow> string" where
  "user_token key u r e = jws_encode (json_dumps (user_payload u r e)) key"

text \<open>The views that \<open>app.py\<close> decorates with \<open>@token_required\<close>.\<close>

definition protected_views :: "(json \<Rightarrow> view) list" where
  "protected_views = [get_dashboard, get_events, get_correlations, create_event]"

text \<open>The request \<open>req\<close> with the \<open>Authorization\<close> header set to \<open>token\<close>.\<close>

definition with_token :: "request \<Rightarrow> string \<Rightarrow> request" where
  "with_token req token = req\<lparr>headers := (headers req)(''Authorization'' \<mapsto> token)\<rparr>"

text \<open>
  The expiry embedded in a token: \<open>int(payload['exp'])\<close> of the payload that
  \<open>PyJWS._load\<close> and \<open>json.loads\<close> read from it, whatever its signature.
\<close>

definition embedded_exp :: "string \<Rightarrow> int option" where
  "embedded_exp token =
     (case jws_load token of
        Inl _ \<Rightarrow> None
      | Inr (payload, signing_input, header, signature) \<Rightarrow>
     (case json_loads payload of
        Inr (JObj kvs) \<Rightarrow>
          (case map_of kvs ''exp'' of
             None \<Rightarrow> None
           | Some v \<Rightarrow> (case py_int v of Inl _ \<Rightarrow> None | Inr e \<Rightarrow> Some e))
      | _ \<Rightarrow> None))"

text \<open>
  The bytes that \<open>base64url_decode\<close> reads from a segment, before it compares the
  segment with their canonical text.
\<close>

definition decode_padded :: "string \<Rightarrow> exn + string" where
  "decode_padded input =
     (let rem = length input mod 4;
          padded = (if 0 < rem then input @ replicate (4 - rem) CHR ''='' else input)
      in a2b_base64 0 0 0 padded)"


section \<open>Properties of the base64 helpers\<close>

lemma b64_value_char_all: "\<forall>v \<in> set [0..<64]. b64_value (b64_char v) = Some v"
  by (simp add: upt_rec b64_value_def b64_char_def b64_alphabet_def)

lemma b64_value_char: "v < 64 \<Longrightarrow> b64_value (b64_char v) = Some v"
  using b64_value_char_all by simp

lemma b64_value_pad: "b64_value (CHR ''='') = None"
  by (simp add: b64_value_def)

lemma b64_char_not_pad: "v < 64 \<Longrightarrow> b64_char v \<noteq> CHR ''=''"
  using b64_value_char [of v] b64_value_pad by auto

lemma of_char_lt_256: "(of_char c :: nat) < 256"
  by (metis of_char_mod_256 mod_less_divisor zero_less_numeral)

lemma sextets_bound:
  fixes a b c :: nat
  assumes "a < 256" "b < 256" "c < 256"
  shows "a div 4 < 64" "a mod 4 * 16 + b div 16 < 64" "b mod 16 * 4 + c div 64 < 64" "c mod 64 < 64"
        "a mod 4 * 16 < 64" "b mod 16 * 4 < 64"
  using assms by auto

lemma of_char_sextets:
  "(of_char a :: nat) div 4 < 64"
  "(of_char a :: nat) mod 4 * 16 + (of_char b :: nat) div 16 < 64"
  "(of_char b :: nat) mod 16 * 4 + (of_char c :: nat) div 64 < 64"
  "(of_char c :: nat) mod 64 < 64"
  "(of_char a :: nat) mod 4 * 16 < 64"
  "(of_char b :: nat) mod 16 * 4 < 64"
  using sextets_bound [OF of_char_lt_256 [of a] of_char_lt_256 [of b] of_char_lt_256 [of c]]
  by blast+

lemma base64url_encode_simps:
  "base64url_encode [] = []"
  "base64url_encode [a] = [b64_char (of_char a div 4), b64_char (of_char a mod 4 * 16)]"
  "base64url_encode [a, b] =
     [b64_char (of_char a div 4), b64_char (of_char a mod 4 * 16 + of_char b div 16),
      b64_char (of_char b mod 16 * 4)]"
  "base64url_encode (a # b # c # rest) =
     b64_char (of_char a div 4) # b64_char (of_char a mod 4 * 16 + of_char b div 16) #
     b64_char (of_char b mod 16 * 4 + of_char c div 64) # b64_char (of_char c mod 64) #
     base64url_encode rest"
  by (simp_all add: base64url_encode_def b64_char_not_pad of_char_sextets)

lemma jsonify_simp: "jsonify [(k1, v1)] code = \<lparr>status = code, body = JObj [(k1, v1)]\<rparr>"
  by (simp add: jsonify_def mk_dict_def dict_update_def)

lemma missing_response_eq:
  "missing_response = \<lparr>status = 401, body = JObj [(''message'', JStr ''Token is missing!'')]\<rparr>"
  by (simp add: missing_response_def jsonify_simp)

lemma invalid_response_eq:
  "invalid_response = \<lparr>status = 401, body = JObj [(''message'', JStr ''Token is invalid!'')]\<rparr>"
  by (simp add: invalid_response_def jsonify_simp)

lemma login_failure_eq:
  "login_failure = \<lparr>status = 401,
     body = JObj [(''success'', JBool False), (''message'', JStr ''Invalid credentials'')]\<rparr>"
  by (simp add: login_failure_def jsonify_def mk_dict_def dict_update_def)

lemma utf8_encode_ascii: "\<forall>c \<in> set s. (of_char c :: nat) < 128 \<Longrightarrow> utf8_encode s = s"
  by (induction s) (simp_all add: utf8_encode_def)

lemma try_body_no_dot:
  "CHR ''.'' \<notin> set token \<Longrightarrow> \<forall>c \<in> set token. (of_char c :: nat) < 128 \<Longrightarrow> \<not> starts_with token ''Bearer '' \<Longrightarrow>
   try_body s token now = Inl DecodeError"
  by (simp add: try_body_def jwt_decode_def jws_decode_def jws_load_def rsplit1_def split1_def
        utf8_encode_ascii)

lemma try_body_empty: "try_body s [] now = Inl DecodeError"
  by (rule try_body_no_dot) (simp_all add: starts_with_def)

lemma try_body_abc: "try_body s ''abc'' now = Inl DecodeError"
  by (rule try_body_no_dot) (simp_all add: starts_with_def)

section \<open>The claims about the gate's failure responses\<close>

text \<open>
  Claim C2, as the code has it. A request with no \<open>Authorization\<close> header, or with an
  empty one, is answered 401 with the message "Token is missing!"; a request with a
  non-empty header for which the body of the \<open>try\<close> statement raises is answered 401
  with the message "Token is invalid!"; the two messages differ. In both cases the
  wrapped view is not called and the state is unchanged.
\<close>

theorem gate_failure_responses:
  "(headers req ''Authorization'' = None \<or> headers req ''Authorization'' = Some [] \<longrightarrow>
      token_required f s req now now' =
        (Inr \<lparr>status = 401, body = JObj [(''message'', JStr ''Token is missing!'')]\<rparr>, s)) \<and>
   (\<forall>token e. headers req ''Authorization'' = Some token \<and> token \<noteq> [] \<and>
        try_body s token now = Inl e \<longrightarrow>
      token_required f s req now now' =
        (Inr \<lparr>status = 401, body = JObj [(''message'', JStr ''Token is invalid!'')]\<rparr>, s)) \<and>
   ''Token is missing!'' \<noteq> ''Token is invalid!''"
  by (auto simp: token_required_def missing_response_eq invalid_response_eq)

text \<open>
  The theorem at three requests: no header, an empty header, and the header \<open>abc\<close>,
  which has no dot and so is not a token.
\<close>

theorem gate_failure_responses_witness:
  "token_required get_dashboard startup \<lparr>headers = Map.empty, get_json = Inr JNull\<rparr> 0 0 =
     (Inr \<lparr>status = 401, body = JObj [(''message'', JStr ''Token is missing!'')]\<rparr>, startup) \<and>
   token_required get_dashboard startup
       \<lparr>headers = [''Authorization'' \<mapsto> []], get_json = Inr JNull\<rparr> 0 0 =
     (Inr \<lparr>status = 401, body = JObj [(''message'', JStr ''Token is missing!'')]\<rparr>, startup) \<and>
   try_body startup ''abc'' 0 = Inl DecodeError \<and>
   token_required get_dashboard startup
       \<lparr>headers = [''Authorization'' \<mapsto> ''abc''], get_json = Inr JNull\<rparr> 0 0 =
     (Inr \<lparr>status = 401, body = JObj [(''message'', JStr ''Token is invalid!'')]\<rparr>, startup)"
  using gate_failure_responses [of "\<lparr>headers = Map.empty, get_json = Inr JNull\<rparr>" get_dashboard startup 0 0]
        gate_failure_responses [of "\<lparr>headers = [''Authorization'' \<mapsto> []], get_json = Inr JNull\<rparr>" get_dashboard startup 0 0]
        gate_failure_responses [of "\<lparr>headers = [''Authorization'' \<mapsto> ''abc''], get_json = Inr JNull\<rparr>" get_dashboard startup 0 0]
        try_body_abc [of startup 0]
  by simp

text \<open>
  Claim C2 as stated fails for a header that is present and empty: decoding the empty
  string fails, yet the answer is "Token is missing!", not "Token is invalid!".
\<close>

theorem empty_header_counterexample:
  "headers \<lparr>headers = [''Authorization'' \<mapsto> []], get_json = Inr JNull\<rparr> ''Authorization'' = Some [] \<and>
   try_body startup [] 0 = Inl DecodeError \<and>
   token_required get_dashboard startup
       \<lparr>headers = [''Authorization'' \<mapsto> []], get_json = Inr JNull\<rparr> 0 0 =
     (Inr \<lparr>status = 401, body = JObj [(''message'', JStr ''Token is missing!'')]\<rparr>, startup) \<and>
   token_required get_dashboard startup
       \<lparr>headers = [''Authorization'' \<mapsto> []], get_json = Inr JNull\<rparr> 0 0 \<noteq>
     (Inr \<lparr>status = 401, body = JObj [(''message'', JStr ''Token is invalid!'')]\<rparr>, startup)"
  by (simp add: try_body_empty token_required_def missing_response_eq)

section \<open>The claims about login failures and about the state\<close>

text \<open>
  Claim C4. Let the body of a login request be a JSON object whose \<open>username\<close> and
  \<open>password\<close> are the strings \<open>u\<close> and \<open>p\<close>. If \<open>u\<close> is not a key of \<open>users\<close>, or
  the password stored for \<open>u\<close> is not \<open>p\<close>, then \<open>login\<close> answers 401 with the body
  \<open>{success: false, message: "Invalid credentials"}\<close>: the same response for both
  causes.
\<close>

theorem login_failure_uniform:
  assumes "get_json req = Inr data"
      and "py_get data ''username'' = Inr (JStr u)"
      and "py_get data ''password'' = Inr (JStr p)"
      and "map_of (users s) u = None \<or>
           (\<exists>record stored. map_of (users s) u = Some record \<and>
              py_getitem record ''password'' = Inr stored \<and> stored \<noteq> JStr p)"
  shows "fst (login s req now) =
           Inr \<lparr>status = 401,
                body = JObj [(''success'', JBool False), (''message'', JStr ''Invalid credentials'')]\<rparr>"
  using assms
  by (auto simp: login_def credentials_ok_def print_def login_failure_eq Let_def
        dest: weak_map_of_SomeI)

text \<open>
  The theorem at a wrong password for \<open>admin\<close> and at the unknown user \<open>nobody\<close>, on
  the state the process starts with: the two responses are equal.
\<close>

theorem login_failure_uniform_witness:
  "fst (login startup \<lparr>headers = Map.empty,
          get_json = Inr (JObj [(''username'', JStr ''admin''), (''password'', JStr ''wrong'')])\<rparr> 0) =
     Inr \<lparr>status = 401,
          body = JObj [(''success'', JBool False), (''message'', JStr ''Invalid credentials'')]\<rparr> \<and>
   fst (login startup \<lparr>headers = Map.empty,
          get_json = Inr (JObj [(''username'', JStr ''nobody''), (''password'', JStr ''admin123'')])\<rparr> 0) =
     Inr \<lparr>status = 401,
          body = JObj [(''success'', JBool False), (''message'', JStr ''Invalid credentials'')]\<rparr>"
proof -
  let ?d1 = "JObj [(''username'', JStr ''admin''), (''password'', JStr ''wrong'')]"
  let ?d2 = "JObj [(''username'', JStr ''nobody''), (''password'', JStr ''admin123'')]"
  have a: "map_of (users startup) ''admin'' = None \<or>
           (\<exists>record stored. map_of (users startup) ''admin'' = Some record \<and>
              py_getitem record ''password'' = Inr stored \<and> stored \<noteq> JStr ''wrong'')"
    by (simp add: startup_def)
  have b: "map_of (users startup) ''nobody'' = None \<or>
           (\<exists>record stored. map_of (users startup) ''nobody'' = Some record \<and>
              py_getitem record ''password'' = Inr stored \<and> stored \<noteq> JStr ''admin123'')"
    by (simp add: startup_def)
  show ?thesis
    using login_failure_uniform [of "\<lparr>headers = Map.empty, get_json = Inr ?d1\<rparr>" ?d1 "''admin''" "''wrong''" startup 0, OF _ _ _ a]
          login_failure_uniform [of "\<lparr>headers = Map.empty, get_json = Inr ?d2\<rparr>" ?d2 "''nobody''" "''admin123''" startup 0, OF _ _ _ b]
    by simp
qed

lemma login_config_kept: "config_kept s (login s req now)"
  by (auto simp: config_kept_def login_def print_def Let_def split: sum.splits bool.splits prod.splits)

lemma view_config_kept:
  "config_kept s (get_dashboard cu s req now)"
  "config_kept s (get_events cu s req now)"
  "config_kept s (get_correlations cu s req now)"
  "config_kept s (create_event cu s req now)"
  "config_kept s (health_check s req now)"
  by (auto simp: config_kept_def get_dashboard_def get_events_def get_correlations_def
        create_event_def health_check_def print_def Let_def split: sum.splits json.splits)

lemma gate_config_kept:
  "(\<And>cu. config_kept s (f cu s req now')) \<Longrightarrow> config_kept s (token_required f s req now now')"
  by (auto simp: token_required_def config_kept_def split: option.splits sum.splits)

text \<open>
  Claim C9. No operation changes the credential store or the secret key: after
  \<open>login\<close>, after the gate around any view \<open>f\<close> that leaves them unchanged (each of
  the four protected views does), and after \<open>health_check\<close>, \<open>users\<close> and
  \<open>SECRET_KEY\<close> are what they were before. Only the standard output grows.
\<close>

theorem config_never_mutated:
  "config_kept s (login s req now) \<and>
   config_kept s (token_required get_dashboard s req now now') \<and>
   config_kept s (token_required get_events s req now now') \<and>
   config_kept s (token_required get_correlations s req now now') \<and>
   config_kept s (token_required create_event s req now now') \<and>
   config_kept s (health_check s req now) \<and>
   ((\<forall>cu. config_kept s (f cu s req now')) \<longrightarrow> config_kept s (token_required f s req now now'))"
  by (simp add: login_config_kept view_config_kept gate_config_kept)

text \<open>
  The theorem on the state the process starts with, for a login of \<open>admin\<close> and for
  a request to create an event that carries no token.
\<close>

theorem config_never_mutated_witness:
  "users (snd (login startup \<lparr>headers = Map.empty,
      get_json = Inr (JObj [(''username'', JStr ''admin''), (''password'', JStr ''admin123'')])\<rparr> 0)) =
     users startup \<and>
   SECRET_KEY (snd (login startup \<lparr>headers = Map.empty,
      get_json = Inr (JObj [(''username'', JStr ''admin''), (''password'', JStr ''admin123'')])\<rparr> 0)) =
     SECRET_KEY startup \<and>
   users (snd (token_required create_event startup
      \<lparr>headers = Map.empty, get_json = Inr (JObj [])\<rparr> 0 0)) = users startup \<and>
   SECRET_KEY (snd (token_required create_event startup
      \<lparr>headers = Map.empty, get_json = Inr (JObj [])\<rparr> 0 0)) = SECRET_KEY startup"
  using config_never_mutated [of startup "\<lparr>headers = Map.empty,
          get_json = Inr (JObj [(''username'', JStr ''admin''), (''password'', JStr ''admin123'')])\<rparr>" 0 0 get_dashboard]
        config_never_mutated [of startup "\<lparr>headers = Map.empty, get_json = Inr (JObj [])\<rparr>" 0 0 get_dashboard]
  by (simp add: config_kept_def)

section \<open>The base64url round trip\<close>

lemma div_add_small:
  fixes x y k :: nat
  assumes "y < k"
  shows "(x * k + y) div k = x" "(x * k + y) mod k = y"
  using assms by simp_all

lemma sextets_bytes:
  fixes a b c :: nat
  assumes "a < 256" "b < 256" "c < 256"
  shows "a div 4 * 4 + (a mod 4 * 16 + b div 16) div 16 = a"
        "(a mod 4 * 16 + b div 16) mod 16 * 16 + (b mod 16 * 4 + c div 64) div 4 = b"
        "(b mod 16 * 4 + c div 64) mod 4 * 64 + c mod 64 = c"
        "a div 4 * 4 + (a mod 4 * 16) div 16 = a"
        "(a mod 4 * 16 + b div 16) mod 16 * 16 + (b mod 16 * 4) div 4 = b"
proof -
  have b16: "b div 16 < 16" and c64: "c div 64 < 4" using assms by auto
  show "a div 4 * 4 + (a mod 4 * 16 + b div 16) div 16 = a"
    by (simp add: div_add_small [OF b16])
  show "(a mod 4 * 16 + b div 16) mod 16 * 16 + (b mod 16 * 4 + c div 64) div 4 = b"
    using b16 by (simp add: div_add_small [OF b16] div_add_small [OF c64])
  show "(b mod 16 * 4 + c div 64) mod 4 * 64 + c mod 64 = c"
    using c64 by (simp add: div_add_small [OF c64])
  show "a div 4 * 4 + (a mod 4 * 16) div 16 = a"
    by simp
  show "(a mod 4 * 16 + b div 16) mod 16 * 16 + (b mod 16 * 4) div 4 = b"
    using b16 by (simp add: div_add_small [OF b16])
qed


lemma char_of_eqI: "n = (of_char a :: nat) \<Longrightarrow> char_of n = a"
  by simp

lemma of_char_sextets_bytes:
  "char_of ((of_char a :: nat) div 4 * 4 + (of_char a mod 4 * 16 + (of_char b :: nat) div 16) div 16) = a"
  "char_of (((of_char a :: nat) mod 4 * 16 + (of_char b :: nat) div 16) mod 16 * 16 +
            (of_char b mod 16 * 4 + (of_char c :: nat) div 64) div 4) = b"
  "char_of (((of_char b :: nat) mod 16 * 4 + (of_char c :: nat) div 64) mod 4 * 64 + of_char c mod 64) = c"
  "char_of ((of_char a :: nat) div 4 * 4 + (of_char a mod 4 * 16) div 16) = a"
  "char_of (((of_char a :: nat) mod 4 * 16 + (of_char b :: nat) div 16) mod 16 * 16 +
            (of_char b mod 16 * 4) div 4) = b"
  by (rule char_of_eqI, rule sextets_bytes [OF of_char_lt_256 of_char_lt_256 of_char_lt_256])+

lemma a2b_quad:
  assumes "v1 < 64" "v2 < 64" "v3 < 64" "v4 < 64"
  shows "a2b_base64 0 l p (b64_char v1 # b64_char v2 # b64_char v3 # b64_char v4 # cs) =
         emit (char_of (v1 * 4 + v2 div 16)) (emit (char_of (v2 mod 16 * 16 + v3 div 4))
           (emit (char_of (v3 mod 4 * 64 + v4)) (a2b_base64 0 0 0 cs)))"
  using assms by (simp add: b64_value_char b64_char_not_pad)

lemma decode_padded_quad:
  assumes "v1 < 64" "v2 < 64" "v3 < 64" "v4 < 64"
  shows "decode_padded (b64_char v1 # b64_char v2 # b64_char v3 # b64_char v4 # cs) =
         emit (char_of (v1 * 4 + v2 div 16)) (emit (char_of (v2 mod 16 * 16 + v3 div 4))
           (emit (char_of (v3 mod 4 * 64 + v4)) (decode_padded cs)))"
proof -
  have len: "length (b64_char v1 # b64_char v2 # b64_char v3 # b64_char v4 # cs) mod 4 =
             length cs mod 4"
    by simp
  show ?thesis
    unfolding decode_padded_def len Let_def
    by (simp only: append_Cons a2b_quad [OF assms] if_distrib [of "a2b_base64 0 0 0"] if_cancel
          split: if_splits) simp
qed


lemma a2b_tail2:
  assumes "v1 < 64" "v2 < 64"
  shows "a2b_base64 0 l p [b64_char v1, b64_char v2, CHR ''='', CHR ''=''] =
         Inr [char_of (v1 * 4 + v2 div 16)]"
  using assms by (simp add: b64_value_char b64_char_not_pad numeral_2_eq_2)

lemma a2b_tail3:
  assumes "v1 < 64" "v2 < 64" "v3 < 64"
  shows "a2b_base64 0 l p [b64_char v1, b64_char v2, b64_char v3, CHR ''=''] =
         Inr [char_of (v1 * 4 + v2 div 16), char_of (v2 mod 16 * 16 + v3 div 4)]"
  using assms by (simp add: b64_value_char b64_char_not_pad)

lemma decode_padded_roundtrip: "decode_padded (base64url_encode bs) = Inr bs"
proof (induction bs rule: b2a_base64.induct)
  case 1
  show ?case by (simp add: base64url_encode_simps decode_padded_def)
next
  case (2 a)
  have "decode_padded (base64url_encode [a]) =
        a2b_base64 0 0 0 [b64_char (of_char a div 4), b64_char (of_char a mod 4 * 16),
                          CHR ''='', CHR ''='']"
    by (simp add: base64url_encode_simps decode_padded_def numeral_2_eq_2)
  also have "\<dots> = Inr [char_of ((of_char a :: nat) div 4 * 4 + (of_char a mod 4 * 16) div 16)]"
    by (rule a2b_tail2) (rule of_char_sextets)+
  also have "\<dots> = Inr [a]"
    by (simp only: of_char_sextets_bytes)
  finally show ?case .
next
  case (3 a b)
  have "decode_padded (base64url_encode [a, b]) =
        a2b_base64 0 0 0 [b64_char (of_char a div 4),
                          b64_char (of_char a mod 4 * 16 + of_char b div 16),
                          b64_char (of_char b mod 16 * 4), CHR ''='']"
    by (simp add: base64url_encode_simps decode_padded_def)
  also have "\<dots> = Inr [char_of ((of_char a :: nat) div 4 * 4 +
                                 (of_char a mod 4 * 16 + (of_char b :: nat) div 16) div 16),
                        char_of (((of_char a :: nat) mod 4 * 16 + (of_char b :: nat) div 16) mod 16 * 16 +
                                 (of_char b mod 16 * 4) div 4)]"
    by (rule a2b_tail3) (rule of_char_sextets)+
  also have "\<dots> = Inr [a, b]"
    by (simp only: of_char_sextets_bytes)
  finally show ?case .
next
  case (4 a b c rest)
  have "decode_padded (base64url_encode (a # b # c # rest)) =
        emit (char_of ((of_char a :: nat) div 4 * 4 +
                       (of_char a mod 4 * 16 + (of_char b :: nat) div 16) div 16))
         (emit (char_of (((of_char a :: nat) mod 4 * 16 + (of_char b :: nat) div 16) mod 16 * 16 +
                         (of_char b mod 16 * 4 + (of_char c :: nat) div 64) div 4))
           (emit (char_of (((of_char b :: nat) mod 16 * 4 + (of_char c :: nat) div 64) mod 4 * 64 +
                           of_char c mod 64))
             (decode_padded (base64url_encode rest))))"
    by (simp only: base64url_encode_simps decode_padded_quad [OF of_char_sextets(1-4)])
  also have "\<dots> = Inr (a # b # c # rest)"
    by (simp only: of_char_sextets_bytes 4 emit.simps)
  finally show ?case .
qed

lemma base64url_decode_canonical:
  "base64url_decode input =
     bind_exn (decode_padded input) (\<lambda>decoded.
       if base64url_encode decoded = input then Inr decoded else Inl BinasciiError)"
  by (simp add: base64url_decode_def decode_padded_def Let_def)

lemma base64url_roundtrip: "base64url_decode (base64url_encode bs) = Inr bs"
  by (simp add: base64url_decode_canonical decode_padded_roundtrip)

lemma b64_char_in_alphabet: "v < 64 \<Longrightarrow> b64_char v \<in> set b64_alphabet"
  unfolding b64_char_def by (rule nth_mem) (simp add: b64_alphabet_def)

lemma base64url_encode_alphabet: "set (base64url_encode bs) \<subseteq> set b64_alphabet"
  by (induction bs rule: b2a_base64.induct)
     (simp_all only: base64url_encode_simps list.set insert_subset empty_subsetI
        b64_char_in_alphabet [OF of_char_sextets(1)] b64_char_in_alphabet [OF of_char_sextets(2)]
        b64_char_in_alphabet [OF of_char_sextets(3)] b64_char_in_alphabet [OF of_char_sextets(4)]
        b64_char_in_alphabet [OF of_char_sextets(5)] b64_char_in_alphabet [OF of_char_sextets(6)]
        simp_thms)

lemma alphabet_ascii: "\<forall>c \<in> set b64_alphabet. (of_char c :: nat) < 128 \<and> c \<noteq> CHR ''.'' \<and> c \<noteq> CHR '' ''"
  by (simp add: b64_alphabet_def)

lemma base64url_encode_ascii: "\<forall>c \<in> set (base64url_encode bs). (of_char c :: nat) < 128"
  using base64url_encode_alphabet alphabet_ascii by blast

lemma base64url_encode_no_dot: "CHR ''.'' \<notin> set (base64url_encode bs)"
  using base64url_encode_alphabet alphabet_ascii by blast

lemma split1_dot: "CHR ''.'' \<notin> set a \<Longrightarrow> split1 (a @ CHR ''.'' # b) = Some (a, b)"
  by (induction a) (auto simp: split1_def)

lemma rsplit1_dot: "CHR ''.'' \<notin> set b \<Longrightarrow> rsplit1 (a @ CHR ''.'' # b) = Some (a, b)"
  using split1_dot [of "rev b" "rev a"] by (simp add: rsplit1_def)

section \<open>The JSON round trip\<close>

lemma hex_value_digit_all: "\<forall>v \<in> set [0..<16]. hex_value (hex_digit v) = Some v"
  by (simp add: upt_rec hex_value_def hex_digit_def)

lemma hex_value_digit: "v < 16 \<Longrightarrow> hex_value (hex_digit v) = Some v"
  using hex_value_digit_all by simp

lemma decode_u00: "decode_uXXXX CHR ''0'' CHR ''0'' (hex_digit (of_char c div 16)) (hex_digit (of_char c mod 16)) = Some (of_char c)"
proof -
  have "(of_char c :: nat) div 16 < 16"
    using of_char_lt_256 [of c] by (simp add: div_less_iff_less_mult)
  then show ?thesis
    by (simp add: decode_uXXXX_def hex_value_digit) (simp add: hex_value_def)
qed

lemma scanstring_escape_char:
  "scanstring (json_escape_char c @ rest) = cons_str c (scanstring rest)"
proof (cases "c = CHR 0x22 \<or> c = CHR 0x5C \<or> c = CHR 0x0A \<or> c = CHR 0x0D \<or> c = CHR 0x09 \<or>
               c = CHR 0x08 \<or> c = CHR 0x0C")
  case True
  then show ?thesis
    by (auto simp: json_escape_char_def backslash_def)
next
  case False
  show ?thesis
  proof (cases "32 \<le> (of_char c :: nat) \<and> (of_char c :: nat) \<le> 126")
    case True
    with False show ?thesis
      by (simp add: json_escape_char_def)
  next
    case nonprint: False
    with False show ?thesis
      using of_char_lt_256 [of c]
      by (simp add: json_escape_char_def decode_u00)
  qed
qed

lemma scanstring_escaped:
  "scanstring (concat (map json_escape_char s) @ CHR 0x22 # rest) = Inr (s, rest)"
  by (induction s) (simp_all add: scanstring_escape_char)

lemma of_char_char_of_int:
  assumes "0 \<le> k" "k < 256"
  shows "(of_char (char_of (k :: int)) :: nat) = nat k"
proof -
  have "char_of k = char_of (int (nat k))" using assms by simp
  also have "\<dots> = char_of (nat k)" by (rule char_of_nat)
  finally have "(of_char (char_of k) :: nat) = nat k mod 256" by simp
  then show ?thesis using assms by simp
qed

lemma is_digit_char_of: "0 \<le> d \<Longrightarrow> d < 10 \<Longrightarrow> is_digit (char_of (48 + d :: int))"
  by (simp add: is_digit_def of_char_char_of_int) arith

lemma digit_value_char_of: "0 \<le> d \<Longrightarrow> d < 10 \<Longrightarrow> (of_char (char_of (48 + d :: int)) :: int) - 48 = d"
  by simp

lemma dec_digits_digits: "0 \<le> n \<Longrightarrow> \<forall>c \<in> set (dec_digits n). is_digit c"
proof (induction n rule: dec_digits.induct)
  case (1 n)
  show ?case
  proof (cases "n < 10")
    case True
    with 1(2) show ?thesis by (simp add: dec_digits.simps [of n] is_digit_char_of)
  next
    case False
    then have "0 \<le> n div 10" by simp
    with 1(1) False have "\<forall>c \<in> set (dec_digits (n div 10)). is_digit c" by simp
    moreover have "is_digit (char_of (48 + n mod 10))"
      by (rule is_digit_char_of) simp_all
    ultimately show ?thesis using False by (simp add: dec_digits.simps [of n])
  qed
qed

lemma dec_digits_nonempty: "dec_digits n \<noteq> []"
  by (simp add: dec_digits.simps [of n])

lemma digits_value_snoc: "digits_value (ds @ [d]) = 10 * digits_value ds + (of_char d - 48)"
  by (simp add: digits_value_def)

lemma digits_value_dec_digits: "0 \<le> n \<Longrightarrow> digits_value (dec_digits n) = n"
proof (induction n rule: dec_digits.induct)
  case (1 n)
  show ?case
  proof (cases "n < 10")
    case True
    with 1(2) show ?thesis
      by (simp add: dec_digits.simps [of n] digits_value_def)
  next
    case False
    then have "0 \<le> n div 10" by simp
    with 1(1) False have "digits_value (dec_digits (n div 10)) = n div 10" by simp
    moreover have "(of_char (char_of (48 + n mod 10)) :: int) - 48 = n mod 10"
      by (rule digit_value_char_of) simp_all
    ultimately show ?thesis using False
      by (simp add: dec_digits.simps [of n] digits_value_snoc)
  qed
qed

text \<open>No leading zero: the first digit is 0 only for the number 0.\<close>

lemma dec_digits_hd: "0 < n \<Longrightarrow> hd (dec_digits n) \<noteq> CHR ''0''"
proof (induction n rule: dec_digits.induct)
  case (1 n)
  show ?case
  proof (cases "n < 10")
    case True
    have "char_of (48 + n) \<noteq> CHR ''0''"
    proof
      assume "char_of (48 + n) = CHR ''0''"
      then have "(of_char (char_of (48 + n)) :: nat) = of_char CHR ''0''" by simp
      then have "nat (48 + n) = 48"
        using 1(2) True by (simp add: of_char_char_of_int)
      then show False using 1(2) by simp
    qed
    with True show ?thesis by (simp add: dec_digits.simps [of n])
  next
    case False
    then have "0 < n div 10" by simp
    with 1(1) False have "hd (dec_digits (n div 10)) \<noteq> CHR ''0''" by simp
    with False show ?thesis
      by (simp add: dec_digits.simps [of n] dec_digits_nonempty)
  qed
qed

lemma dec_digits_0: "dec_digits 0 = ''0''"
  by (simp add: dec_digits.simps [of 0] char_of_eq_iff)

lemma takeWhile_digits:
  "\<forall>c \<in> set ds. is_digit c \<Longrightarrow> \<not> is_digit r \<Longrightarrow>
   takeWhile is_digit (ds @ r # rs) = ds \<and> dropWhile is_digit (ds @ r # rs) = r # rs"
  by (induction ds) simp_all

lemma is_digit_not_minus: "is_digit c \<Longrightarrow> c \<noteq> CHR ''-''"
  by (auto simp: is_digit_def)

lemma match_integer_digits:
  assumes "0 \<le> n" "\<not> is_digit r"
  shows "match_integer (dec_digits n @ r # rs) = Some (dec_digits n, r # rs)"
proof -
  obtain d ds where ds: "dec_digits n = d # ds"
    using dec_digits_nonempty [of n] by (cases "dec_digits n") auto
  have dig: "\<forall>c \<in> set (dec_digits n). is_digit c"
    using assms(1) by (rule dec_digits_digits)
  then have d: "is_digit d" "d \<noteq> CHR ''-''"
    using ds is_digit_not_minus by auto
  show ?thesis
  proof (cases "d = CHR ''0''")
    case True
    then have "n = 0" using dec_digits_hd [of n] ds assms(1) by (cases "n = 0") auto
    then show ?thesis using assms(2) by (simp add: dec_digits_0 match_integer_def)
  next
    case False
    then show ?thesis
      using d takeWhile_digits [OF dig assms(2), of rs]
      by (simp add: match_integer_def ds [symmetric]) (simp add: ds)
  qed
qed

lemma match_integer_int:
  assumes "\<not> is_digit r"
  shows "match_integer (py_str_int n @ r # rs) = Some (py_str_int n, r # rs)"
proof (cases "n < 0")
  case False
  then show ?thesis using match_integer_digits [OF _ assms, of n rs] by (simp add: py_str_int_def)
next
  case True
  then have pos: "0 < - n" by simp
  then have nn: "0 \<le> - n" by simp
  obtain d ds where ds: "dec_digits (- n) = d # ds"
    using dec_digits_nonempty [of "- n"] by (cases "dec_digits (- n)") auto
  have dig: "\<forall>c \<in> set (dec_digits (- n)). is_digit c"
    using nn by (rule dec_digits_digits)
  have d0: "d \<noteq> CHR ''0''" using dec_digits_hd [OF pos] ds by simp
  have d: "is_digit d" using dig ds by simp
  show ?thesis
    using True d0 d takeWhile_digits [OF dig assms, of rs]
    by (simp add: py_str_int_def match_integer_def ds [symmetric]) (simp add: ds)
qed

lemma py_str_int_value:
  "(case py_str_int n of s # ds \<Rightarrow> if s = CHR ''-'' then - digits_value ds else digits_value (py_str_int n)
    | [] \<Rightarrow> 0) = n"
proof (cases "n < 0")
  case True
  then have "digits_value (dec_digits (- n)) = - n" by (simp add: digits_value_dec_digits)
  with True show ?thesis by (simp add: py_str_int_def)
next
  case False
  then have nn: "0 \<le> n" by simp
  obtain d ds where ds: "dec_digits n = d # ds"
    using dec_digits_nonempty [of n] by (cases "dec_digits n") auto
  have "is_digit d" using dec_digits_digits [OF nn] ds by simp
  then have "d \<noteq> CHR ''-''" by (rule is_digit_not_minus)
  then show ?thesis
    using False digits_value_dec_digits [OF nn] by (simp add: py_str_int_def ds)
qed

text \<open>A printed integer is read back, when what follows cannot continue a number.\<close>

lemma match_number_int:
  assumes "ends_number r"
  shows "match_number (py_str_int n @ r # rs) = Some (JInt n, r # rs)"
  using assms py_str_int_value [of n]
  by (simp add: match_number_def match_integer_int match_frac_def match_exp_def ends_number_def)

lemma py_str_int_first:
  "\<exists>c cs. py_str_int n = c # cs \<and> (is_digit c \<or> c = CHR ''-'')"
proof (cases "n < 0")
  case True
  then show ?thesis by (simp add: py_str_int_def)
next
  case False
  then have nn: "0 \<le> n" by simp
  obtain d ds where ds: "dec_digits n = d # ds"
    using dec_digits_nonempty [of n] by (cases "dec_digits n") auto
  have "is_digit d" using dec_digits_digits [OF nn] ds by simp
  then show ?thesis using False ds by (simp add: py_str_int_def)
qed

lemma scan_once_int:
  assumes "ends_number r"
  shows "scan_once (Suc k) (py_str_int n @ r # rs) = Inr (JInt n, r # rs)"
proof -
  obtain c cs where c: "py_str_int n = c # cs" "is_digit c \<or> c = CHR ''-''"
    using py_str_int_first by blast
  have first: "c \<noteq> CHR 0x22" "c \<noteq> CHR ''{''" "c \<noteq> CHR ''[''" "c \<noteq> CHR ''n''" "c \<noteq> CHR ''t''" "c \<noteq> CHR ''f''"
    using c(2) by (auto simp: is_digit_def)
  have "scan_once (Suc k) (c # cs @ r # rs) =
        (case match_number (c # cs @ r # rs) of Some res \<Rightarrow> Inr res | None \<Rightarrow>
           if starts_with (c # cs @ r # rs) ''NaN'' then Inr (JFloat ''NaN'', drop 3 (c # cs @ r # rs))
           else if starts_with (c # cs @ r # rs) ''Infinity'' then Inr (JFloat ''Infinity'', drop 8 (c # cs @ r # rs))
           else if starts_with (c # cs @ r # rs) ''-Infinity'' then Inr (JFloat ''-Infinity'', drop 9 (c # cs @ r # rs))
           else Inl JSONDecodeError)"
    using first by (simp add: starts_with_def)
  then show ?thesis
    using match_number_int [OF assms, of n rs] by (simp add: c(1))
qed

lemma scan_once_str:
  "scan_once (Suc k) (json_dumps_str s @ rest) = Inr (JStr s, rest)"
  by (simp add: json_dumps_str_def scanstring_escaped)

text \<open>The payload that \<open>login\<close> signs, as JSON.\<close>

lemma skip_ws_nonws: "\<not> is_ws c \<Longrightarrow> skip_ws (c # cs) = c # cs"
  by (simp add: skip_ws_def)

lemma mk_dict_1: "mk_dict [(k, v)] = [(k, v)]"
  by (simp add: mk_dict_def dict_update_def)

lemma mk_dict_2: "k1 \<noteq> k2 \<Longrightarrow> mk_dict [(k1, v1), (k2, v2)] = [(k1, v1), (k2, v2)]"
  by (simp add: mk_dict_def dict_update_def)

lemma scan_once_Cons:
  "scan_once (Suc n) (c # cs1) =
     (if c = CHR 0x22 then
        bind_exn (scanstring cs1) (\<lambda>(s, rest). Inr (JStr s, rest))
      else if c = CHR ''{'' then
        (case skip_ws cs1 of
           [] \<Rightarrow> Inl JSONDecodeError
         | d # cs2 \<Rightarrow>
             if d = CHR ''}'' then Inr (JObj [], cs2)
             else if d = CHR 0x22 then scan_members n [] cs2
             else Inl JSONDecodeError)
      else if c = CHR ''['' then
        (case skip_ws cs1 of
           [] \<Rightarrow> Inl JSONDecodeError
         | d # cs2 \<Rightarrow>
             if d = CHR '']'' then Inr (JArr [], cs2)
             else scan_elements n [] (d # cs2))
      else if starts_with (c # cs1) ''null'' then Inr (JNull, drop 4 (c # cs1))
      else if starts_with (c # cs1) ''true'' then Inr (JBool True, drop 4 (c # cs1))
      else if starts_with (c # cs1) ''false'' then Inr (JBool False, drop 5 (c # cs1))
      else (case match_number (c # cs1) of
          Some r \<Rightarrow> Inr r
        | None \<Rightarrow>
            if starts_with (c # cs1) ''NaN'' then Inr (JFloat ''NaN'', drop 3 (c # cs1))
            else if starts_with (c # cs1) ''Infinity'' then Inr (JFloat ''Infinity'', drop 8 (c # cs1))
            else if starts_with (c # cs1) ''-Infinity'' then Inr (JFloat ''-Infinity'', drop 9 (c # cs1))
            else Inl JSONDecodeError))"
  by simp

lemmas scan_simps =
  scan_once_Cons json_dumps_str_def
  scanstring_escape_char scanstring_escaped skip_ws_nonws is_ws_def mk_dict_1 mk_dict_2

lemma scan_once_user_data:
  "scan_once (Suc (Suc (Suc (Suc k))))
     (json_dumps (JObj [(''username'', JStr u), (''role'', JStr r)]) @ rest) =
   Inr (JObj [(''username'', JStr u), (''role'', JStr r)], rest)"
  by (simp add: scan_simps del: scan_once.simps)

lemma skip_ws_int: "skip_ws (py_str_int n @ rest) = py_str_int n @ rest"
proof -
  obtain c cs where c: "py_str_int n = c # cs" "is_digit c \<or> c = CHR ''-''"
    using py_str_int_first by blast
  then have "\<not> is_ws c" by (auto simp: is_ws_def is_digit_def)
  then show ?thesis by (simp add: c(1) skip_ws_nonws)
qed

lemma ends_number_brace: "ends_number (CHR ''}'')"
  by (simp add: ends_number_def is_digit_def)

lemma scan_once_payload:
  "scan_once (Suc (Suc (Suc (Suc (Suc (Suc k))))))
     (json_dumps (JObj [(''user'', JObj [(''username'', JStr u), (''role'', JStr r)]),
                        (''exp'', JInt e)]) @ rest) =
   Inr (JObj [(''user'', JObj [(''username'', JStr u), (''role'', JStr r)]), (''exp'', JInt e)], rest)"
  by (simp add: scan_simps skip_ws_int scan_once_int [OF ends_number_brace] del: scan_once.simps)

lemma hex_digit_printable_all: "\<forall>v \<in> set [0..<16]. printable (hex_digit v)"
  by (simp add: upt_rec printable_def hex_digit_def)

lemma hex_digit_printable: "v < 16 \<Longrightarrow> printable (hex_digit v)"
  using hex_digit_printable_all by simp

lemma printable_literals:
  "printable (CHR 0x5C)" "printable (CHR 0x22)" "printable (CHR ''n'')" "printable (CHR ''r'')"
  "printable (CHR ''t'')" "printable (CHR ''b'')" "printable (CHR ''f'')" "printable (CHR ''u'')"
  "printable (CHR ''0'')" "printable (CHR ''-'')" "printable (CHR ''{'')" "printable (CHR ''}'')"
  "printable (CHR '':'')" "printable (CHR '','')"
  by (simp_all add: printable_def)

lemma json_escape_char_printable: "list_all printable (json_escape_char c)"
proof -
  have "(of_char c :: nat) div 16 < 16"
    using of_char_lt_256 [of c] by (simp add: div_less_iff_less_mult)
  then have h: "printable (hex_digit (of_char c div 16))" "printable (hex_digit (of_char c mod 16))"
    by (simp_all add: hex_digit_printable)
  have p: "32 \<le> (of_char c :: nat) \<and> (of_char c :: nat) \<le> 126 \<Longrightarrow> printable c"
    by (simp add: printable_def)
  show ?thesis
    unfolding json_escape_char_def
    by (simp add: printable_literals h p)
qed

lemma concat_escape_printable: "list_all printable (concat (map json_escape_char s))"
  by (induction s) (simp_all add: json_escape_char_printable)

lemma json_dumps_str_printable: "list_all printable (json_dumps_str s)"
  by (simp add: json_dumps_str_def concat_escape_printable printable_literals)

lemma is_digit_printable: "is_digit c \<Longrightarrow> printable c"
  by (simp add: is_digit_def printable_def)

lemma digits_printable: "\<forall>c \<in> set ds. is_digit c \<Longrightarrow> list_all printable ds"
  by (induction ds) (simp_all add: is_digit_printable)

lemma py_str_int_printable: "list_all printable (py_str_int n)"
proof (cases "n < 0")
  case True
  then have "0 \<le> - n" by simp
  then have "list_all printable (dec_digits (- n))"
    by (intro digits_printable dec_digits_digits)
  with True show ?thesis by (simp add: py_str_int_def printable_literals)
next
  case False
  then have "0 \<le> n" by simp
  then have "list_all printable (dec_digits n)"
    by (intro digits_printable dec_digits_digits)
  with False show ?thesis by (simp add: py_str_int_def)
qed

lemma printable_ascii:
  "list_all printable s \<Longrightarrow> \<forall>c \<in> set s. (of_char c :: nat) < 128"
  "list_all printable s \<Longrightarrow> \<not> (\<exists>c \<in> set s. (of_char c :: nat) = 0 \<or> 128 \<le> (of_char c :: nat))"
  by (induction s) (simp_all add: printable_def)

text \<open>
  The payload of \<open>login\<close>: \<open>{"user": {"username": u, "role": r}, "exp": e}\<close>. Its text
  is printable ASCII, and \<open>json.loads\<close> reads it back.
\<close>

lemma payload_printable:
  "list_all printable (json_dumps (JObj [(''user'', JObj [(''username'', JStr u), (''role'', JStr r)]),
                                          (''exp'', JInt e)]))"
  by (simp add: json_dumps_str_printable py_str_int_printable printable_literals)

lemma scan_once_enough:
  assumes "5 \<le> length text"
      and "\<And>k. scan_once (Suc (Suc (Suc (Suc (Suc (Suc k)))))) text = Inr (v, [])"
  shows "scan_once (Suc (length text)) text = Inr (v, [])"
proof -
  obtain k where "length text = 5 + k" using assms(1) le_Suc_ex by blast
  then have "Suc (length text) = Suc (Suc (Suc (Suc (Suc (Suc k)))))" by simp
  then show ?thesis using assms(2) by simp
qed

lemma json_loads_payload:
  "json_loads (json_dumps (JObj [(''user'', JObj [(''username'', JStr u), (''role'', JStr r)]),
                                 (''exp'', JInt e)])) =
   Inr (JObj [(''user'', JObj [(''username'', JStr u), (''role'', JStr r)]), (''exp'', JInt e)])"
proof -
  let ?p = "JObj [(''user'', JObj [(''username'', JStr u), (''role'', JStr r)]), (''exp'', JInt e)]"
  have ascii: "\<not> (\<exists>c \<in> set (json_dumps ?p). (of_char c :: nat) = 0 \<or> 128 \<le> (of_char c :: nat))"
    by (rule printable_ascii(2)) (rule payload_printable)
  have ws: "skip_ws (json_dumps ?p) = json_dumps ?p"
    by (simp add: skip_ws_nonws is_ws_def)
  have len: "5 \<le> length (json_dumps ?p)"
    by simp
  have scan: "scan_once (Suc (length (json_dumps ?p))) (json_dumps ?p) = Inr (?p, [])"
    using scan_once_payload [of _ u r e "[]"] by (intro scan_once_enough [OF len]) simp
  show ?thesis
    unfolding json_loads_def using ascii by (simp only: if_False ws scan) (simp add: skip_ws_def)
qed

lemma utf8_encode_payload:
  "utf8_encode (json_dumps (JObj [(''user'', JObj [(''username'', JStr u), (''role'', JStr r)]),
                                  (''exp'', JInt e)])) =
   json_dumps (JObj [(''user'', JObj [(''username'', JStr u), (''role'', JStr r)]), (''exp'', JInt e)])"
  by (intro utf8_encode_ascii printable_ascii(1) payload_printable)

text \<open>The header \<open>{"alg": "HS256", "typ": "JWT"}\<close>.\<close>

lemma scan_once_two_strings:
  "k1 \<noteq> k2 \<Longrightarrow>
   scan_once (Suc (Suc (Suc (Suc k))))
     (json_dumps (JObj [(k1, JStr v1), (k2, JStr v2)]) @ rest) =
   Inr (JObj [(k1, JStr v1), (k2, JStr v2)], rest)"
  by (simp add: scan_simps del: scan_once.simps)

lemma header_printable: "list_all printable (json_dumps jwt_header)"
  by (simp add: jwt_header_def json_dumps_str_printable printable_literals)

lemma utf8_encode_header: "utf8_encode (json_dumps jwt_header) = json_dumps jwt_header"
  by (intro utf8_encode_ascii printable_ascii(1) header_printable)

lemma json_loads_header: "json_loads (json_dumps jwt_header) = Inr jwt_header"
proof -
  have ascii: "\<not> (\<exists>c \<in> set (json_dumps jwt_header). (of_char c :: nat) = 0 \<or> 128 \<le> (of_char c :: nat))"
    by (rule printable_ascii(2)) (rule header_printable)
  have ws: "skip_ws (json_dumps jwt_header) = json_dumps jwt_header"
    by (simp add: jwt_header_def skip_ws_nonws is_ws_def)
  have len: "5 \<le> length (json_dumps jwt_header)"
    by (simp add: jwt_header_def)
  have scan: "scan_once (Suc (length (json_dumps jwt_header))) (json_dumps jwt_header) =
              Inr (jwt_header, [])"
  proof (rule scan_once_enough [OF len])
    fix k
    have "scan_once (Suc (Suc (Suc (Suc (Suc (Suc k))))))
            (json_dumps (JObj [(''alg'', JStr ''HS256''), (''typ'', JStr ''JWT'')]) @ []) =
          Inr (JObj [(''alg'', JStr ''HS256''), (''typ'', JStr ''JWT'')], [])"
      by (rule scan_once_two_strings) simp
    then show "scan_once (Suc (Suc (Suc (Suc (Suc (Suc k)))))) (json_dumps jwt_header) =
               Inr (jwt_header, [])"
      by (simp only: jwt_header_def append_Nil2)
  qed
  show ?thesis
    unfolding json_loads_def using ascii by (simp only: if_False ws scan) (simp add: skip_ws_def)
qed

section \<open>Decoding what \<open>jwt.encode\<close> produced\<close>

lemma jws_load_segments:
  assumes "CHR ''.'' \<notin> set h" "CHR ''.'' \<notin> set s"
      and "\<forall>c \<in> set ((h @ CHR ''.'' # p) @ CHR ''.'' # s). (of_char c :: nat) < 128"
  shows "jws_load ((h @ CHR ''.'' # p) @ CHR ''.'' # s) =
     bind_exn (reraise [TypeError, BinasciiError] DecodeError (base64url_decode h)) (\<lambda>header_data.
     bind_exn (reraise [ValueError, JSONDecodeError] DecodeError (json_loads header_data)) (\<lambda>header.
       (case header of
          JObj _ \<Rightarrow>
            bind_exn (reraise [TypeError, BinasciiError] DecodeError (base64url_decode p)) (\<lambda>payload.
            bind_exn (reraise [TypeError, BinasciiError] DecodeError (base64url_decode s)) (\<lambda>signature.
              Inr (payload, h @ CHR ''.'' # p, header, signature)))
        | _ \<Rightarrow> Inl DecodeError)))"
proof -
  have u: "utf8_encode ((h @ CHR ''.'' # p) @ CHR ''.'' # s) = (h @ CHR ''.'' # p) @ CHR ''.'' # s"
    using assms(3) by (rule utf8_encode_ascii)
  have rs: "rsplit1 ((h @ CHR ''.'' # p) @ CHR ''.'' # s) = Some (h @ CHR ''.'' # p, s)"
    using assms(2) by (rule rsplit1_dot)
  have sp: "split1 (h @ CHR ''.'' # p) = Some (h, p)"
    using assms(1) by (rule split1_dot)
  show ?thesis
    unfolding jws_load_def by (simp only: u rs sp option.case prod.case)
qed

lemma jws_encode_shape:
  "jws_encode json_payload key =
     signing_input_of json_payload @ CHR ''.'' #
     base64url_encode (hmac_sha256 (utf8_encode key) (signing_input_of json_payload))"
  by (simp add: jws_encode_def Let_def utf8_encode_header signing_input_of_def)


lemma jwt_header_case:
  "case_json a b c d e f g jwt_header = g [(''alg'', JStr ''HS256''), (''typ'', JStr ''JWT'')]"
  by (simp add: jwt_header_def)

lemma jws_load_encode:
  "jws_load (jws_encode json_payload key) =
   Inr (json_payload, signing_input_of json_payload, jwt_header,
        hmac_sha256 (utf8_encode key) (signing_input_of json_payload))"
proof -
  let ?h = "base64url_encode (json_dumps jwt_header)"
  let ?p = "base64url_encode json_payload"
  let ?s = "base64url_encode (hmac_sha256 (utf8_encode key) (signing_input_of json_payload))"
  have tok: "jws_encode json_payload key = (?h @ CHR ''.'' # ?p) @ CHR ''.'' # ?s"
    by (simp only: jws_encode_shape signing_input_of_def)
  have asc: "\<forall>c \<in> set ((?h @ CHR ''.'' # ?p) @ CHR ''.'' # ?s). (of_char c :: nat) < 128"
    using base64url_encode_ascii by auto
  have "jws_load ((?h @ CHR ''.'' # ?p) @ CHR ''.'' # ?s) =
        Inr (json_payload, ?h @ CHR ''.'' # ?p, jwt_header,
             hmac_sha256 (utf8_encode key) (signing_input_of json_payload))"
    by (subst jws_load_segments [OF base64url_encode_no_dot base64url_encode_no_dot asc])
       (simp add: base64url_roundtrip json_loads_header jwt_header_case)
  then show ?thesis
    by (simp only: tok signing_input_of_def)
qed

lemma jws_roundtrip: "jws_decode (jws_encode json_payload key) key [''HS256''] = Inr json_payload"
  by (simp add: jws_decode_def jws_load_encode verify_signature_def)
     (simp add: jwt_header_def)

lemma user_payload_unfold:
  "user_payload u r e =
   JObj [(''user'', JObj [(''username'', JStr u), (''role'', JStr r)]), (''exp'', JInt e)]"
  by (simp add: user_payload_def user_data_def)

lemma jwt_encode_user:
  "jwt_encode [(''user'', Value (user_data u r)), (''exp'', Datetime dt)] key =
   Inr (user_token key u r (timegm dt))"
proof -
  have p: "to_json_payload [(''user'', Value (user_data u r)), (''exp'', Datetime dt)] =
           Inr [(''user'', user_data u r), (''exp'', JInt (timegm dt))]"
    by simp
  have u: "utf8_encode (json_dumps (user_payload u r (timegm dt))) =
           json_dumps (user_payload u r (timegm dt))"
    by (simp only: user_payload_unfold utf8_encode_payload)
  show ?thesis
    unfolding jwt_encode_def p bind_exn.simps user_payload_def [symmetric] u user_token_def ..
qed

lemma validate_claims_user:
  "validate_claims [(''user'', user_data u r), (''exp'', JInt e)] now =
   (if e * 1000000 \<le> now then Inl ExpiredSignatureError else Inr ())"
  by (simp add: validate_claims_def validate_iat_def validate_nbf_def validate_exp_def
        validate_aud_def validate_sub_def validate_jti_def)

lemma jwt_decode_user_token:
  "jwt_decode (user_token key u r e) key [''HS256''] now =
   (if e * 1000000 \<le> now then Inl ExpiredSignatureError else Inr (user_payload u r e))"
proof -
  have "json_loads (json_dumps (user_payload u r e)) = Inr (user_payload u r e)"
    by (simp only: user_payload_unfold json_loads_payload)
  then show ?thesis
    using validate_claims_user [of u r e now]
    by (simp add: jwt_decode_def user_token_def jws_roundtrip)
       (simp add: user_payload_def)
qed

lemma no_space_no_bearer: "CHR '' '' \<notin> set token \<Longrightarrow> \<not> starts_with token ''Bearer ''"
proof
  assume a: "CHR '' '' \<notin> set token" and "starts_with token ''Bearer ''"
  then have "take (length ''Bearer '') token = ''Bearer ''" by (simp only: starts_with_def)
  then have "CHR '' '' \<in> set (take (length ''Bearer '') token)" by (simp del: length_Cons)
  then show False using a by (meson in_set_takeD)
qed

lemma user_token_no_space: "CHR '' '' \<notin> set (user_token key u r e)"
  using base64url_encode_alphabet alphabet_ascii
  by (auto simp: user_token_def jws_encode_shape signing_input_of_def)

lemma try_body_user_token:
  "try_body s (user_token (SECRET_KEY s) u r e) now =
   (if e * 1000000 \<le> now then Inl ExpiredSignatureError else Inr (user_data u r))"
  by (simp add: try_body_def no_space_no_bearer [OF user_token_no_space] jwt_decode_user_token
        user_payload_def)

lemma try_body_bearer_user_token:
  "try_body s (''Bearer '' @ user_token (SECRET_KEY s) u r e) now =
   (if e * 1000000 \<le> now then Inl ExpiredSignatureError else Inr (user_data u r))"
  by (simp add: try_body_def starts_with_def jwt_decode_user_token user_payload_def)

section \<open>The claims about issued tokens\<close>

text \<open>
  Claim C1. Let \<open>exp\<close> be the expiry that \<open>login\<close> computes at the time \<open>t0\<close>, 24 hours
  after \<open>t0\<close>. For every identity context (a username \<open>u\<close> and a role \<open>r\<close>) and every
  secret key, \<open>jwt.encode\<close> returns a token, and at every time \<open>now\<close> before the expiry
  embedded in the token (\<open>exp\<close> in whole seconds) \<open>jwt.decode\<close> with the same key returns
  the payload that was encoded, and the gate's \<open>try\<close> body returns the identity context
  unchanged, with or without the \<open>Bearer\<close> prefix.
\<close>

theorem encode_decode_roundtrip:
  assumes "datetime_add t0 (timedelta_hours 24) = Inr exp"
      and "now < timegm exp * 1000000"
  shows "jwt_encode [(''user'', Value (user_data u r)), (''exp'', Datetime exp)] (SECRET_KEY s) =
           Inr (user_token (SECRET_KEY s) u r (timegm exp)) \<and>
         jwt_decode (user_token (SECRET_KEY s) u r (timegm exp)) (SECRET_KEY s) [''HS256''] now =
           Inr (JObj [(''user'', user_data u r), (''exp'', JInt (timegm exp))]) \<and>
         try_body s (user_token (SECRET_KEY s) u r (timegm exp)) now = Inr (user_data u r) \<and>
         try_body s (''Bearer '' @ user_token (SECRET_KEY s) u r (timegm exp)) now =
           Inr (user_data u r)"
  using assms(2)
  by (simp add: jwt_encode_user jwt_decode_user_token try_body_user_token
        try_body_bearer_user_token user_payload_def del: append.simps)

text \<open>
  The theorem for \<open>admin\<close>, a token issued on 2024-01-14 at 09:50:00.9 UTC and decoded
  21 hours later.
\<close>

theorem encode_decode_roundtrip_witness:
  "datetime_add 1705225800900000 (timedelta_hours 24) = Inr 1705312200900000 \<and>
   (1705301400000000 :: int) < timegm 1705312200900000 * 1000000 \<and>
   try_body startup (user_token (SECRET_KEY startup) ''admin'' ''administrator''
       (timegm 1705312200900000)) 1705301400000000 =
     Inr (user_data ''admin'' ''administrator'')"
proof -
  have a: "datetime_add 1705225800900000 (timedelta_hours 24) = Inr 1705312200900000"
    by (simp add: datetime_add_def timedelta_hours_def datetime_max_def)
  have b: "(1705301400000000 :: int) < timegm 1705312200900000 * 1000000"
    by (simp add: timegm_def)
  show ?thesis
    using encode_decode_roundtrip [OF a b, of "''admin''" "''administrator''" startup] a b
    by simp
qed

text \<open>What \<open>login\<close> does for a known user with the right password.\<close>

lemma login_success:
  assumes "get_json req = Inr data"
      and "py_get data ''username'' = Inr (JStr u)"
      and "py_get data ''password'' = Inr (JStr p)"
      and "map_of (users s) u = Some record"
      and "py_getitem record ''password'' = Inr (JStr p)"
      and "py_getitem record ''role'' = Inr (JStr r)"
      and "datetime_add t0 (timedelta_hours 24) = Inr exp"
  shows "login s req t0 =
     (Inr \<lparr>status = 200,
           body = JObj [(''success'', JBool True),
                        (''token'', JStr (user_token (SECRET_KEY s) u r (timegm exp))),
                        (''user'', user_data u r)]\<rparr>,
      s\<lparr>stdout := stdout s @ [Login_attempt (JStr u), Login_successful (JStr u)]\<rparr>)"
proof -
  have known: "u \<in> fst ` set (users s)"
    using assms(4) by (metis map_of_eq_None_iff option.distinct(1))
  have enc: "jwt_encode [(''user'', Value (JObj [(''username'', JStr u), (''role'', JStr r)])),
                         (''exp'', Datetime exp)] (SECRET_KEY s) =
             Inr (user_token (SECRET_KEY s) u r (timegm exp))"
    using jwt_encode_user [of u r exp "SECRET_KEY s"] by (simp only: user_data_def)
  show ?thesis
    using assms known
    by (simp add: login_def credentials_ok_def print_def Let_def enc jsonify_def mk_dict_def
          dict_update_def user_data_def)
qed

text \<open>
  Claim C3. For each of the three seeded accounts (\<open>admin\<close>/\<open>admin123\<close>,
  \<open>user\<close>/\<open>user123\<close>, \<open>operator\<close>/\<open>operator123\<close>), on a state with the seeded \<open>users\<close>,
  \<open>login\<close> with the right password answers 200 with \<open>success\<close>, a token and the user;
  decoding that token before its expiry gives an identity context whose role is the
  role configured for the account (\<open>administrator\<close>, \<open>analyst\<close>, \<open>operator\<close>).
\<close>

theorem seeded_login_roles:
  assumes "(u, p, r) \<in> {(''admin'', ''admin123'', ''administrator''),
                        (''user'', ''user123'', ''analyst''),
                        (''operator'', ''operator123'', ''operator'')}"
      and "users s = users startup"
      and "get_json req = Inr (JObj [(''username'', JStr u), (''password'', JStr p)])"
      and "datetime_add t0 (timedelta_hours 24) = Inr exp"
      and "now < timegm exp * 1000000"
  shows "fst (login s req t0) =
           Inr \<lparr>status = 200,
                body = JObj [(''success'', JBool True),
                             (''token'', JStr (user_token (SECRET_KEY s) u r (timegm exp))),
                             (''user'', JObj [(''username'', JStr u), (''role'', JStr r)])]\<rparr> \<and>
         bind_exn (try_body (snd (login s req t0))
                     (user_token (SECRET_KEY s) u r (timegm exp)) now)
           (\<lambda>current_user. py_getitem current_user ''role'') = Inr (JStr r)"
proof -
  obtain entry where entry: "map_of (users s) u = Some entry"
      "py_getitem entry ''password'' = Inr (JStr p)" "py_getitem entry ''role'' = Inr (JStr r)"
    using assms(1,2) by (auto simp: startup_def)
  have l: "login s req t0 =
     (Inr \<lparr>status = 200,
           body = JObj [(''success'', JBool True),
                        (''token'', JStr (user_token (SECRET_KEY s) u r (timegm exp))),
                        (''user'', user_data u r)]\<rparr>,
      s\<lparr>stdout := stdout s @ [Login_attempt (JStr u), Login_successful (JStr u)]\<rparr>)"
    by (rule login_success [OF assms(3) _ _ entry assms(4)]) simp_all
  have t: "try_body (s\<lparr>stdout := stdout s @ [Login_attempt (JStr u), Login_successful (JStr u)]\<rparr>)
             (user_token (SECRET_KEY s) u r (timegm exp)) now = Inr (user_data u r)"
    using try_body_user_token [of "s\<lparr>stdout := stdout s @ [Login_attempt (JStr u), Login_successful (JStr u)]\<rparr>" u r "timegm exp" now]
          assms(5)
    by simp
  show ?thesis
    unfolding l by (simp add: t) (simp add: user_data_def)
qed

text \<open>The theorem for \<open>admin\<close>, who logs in on 2024-01-14 at 09:50:00.9 UTC.\<close>

theorem seeded_login_roles_witness:
  "fst (login startup \<lparr>headers = Map.empty,
          get_json = Inr (JObj [(''username'', JStr ''admin''), (''password'', JStr ''admin123'')])\<rparr>
        1705225800900000) =
     Inr \<lparr>status = 200,
          body = JObj [(''success'', JBool True),
                       (''token'', JStr (user_token (SECRET_KEY startup) ''admin'' ''administrator''
                                           (timegm 1705312200900000))),
                       (''user'', JObj [(''username'', JStr ''admin''),
                                        (''role'', JStr ''administrator'')])]\<rparr> \<and>
   bind_exn (try_body (snd (login startup \<lparr>headers = Map.empty,
          get_json = Inr (JObj [(''username'', JStr ''admin''), (''password'', JStr ''admin123'')])\<rparr>
        1705225800900000))
      (user_token (SECRET_KEY startup) ''admin'' ''administrator'' (timegm 1705312200900000))
      1705301400000000)
     (\<lambda>current_user. py_getitem current_user ''role'') = Inr (JStr ''administrator'')"
proof -
  have a: "datetime_add 1705225800900000 (timedelta_hours 24) = Inr 1705312200900000"
    by (simp add: datetime_add_def timedelta_hours_def datetime_max_def)
  have b: "(1705301400000000 :: int) < timegm 1705312200900000 * 1000000"
    by (simp add: timegm_def)
  show ?thesis
    using seeded_login_roles [of "''admin''" "''admin123''" "''administrator''" startup
            "\<lparr>headers = Map.empty,
              get_json = Inr (JObj [(''username'', JStr ''admin''), (''password'', JStr ''admin123'')])\<rparr>"
            1705225800900000 1705312200900000 1705301400000000, OF _ _ _ a b]
    by simp
qed

section \<open>The claims about the gate and the wrapped view\<close>

text \<open>
  Claim C7. For every wrapped view \<open>f\<close> and every request whose \<open>Authorization\<close> header
  is a token for which the \<open>try\<close> body succeeds with the identity context \<open>I\<close>, the
  gate returns exactly what \<open>f\<close> returns for \<open>I\<close>: the response (or the exception) and the
  state of \<open>f\<close>, unchanged.
\<close>

theorem gate_returns_view_result:
  assumes "headers req ''Authorization'' = Some token"
      and "token \<noteq> []"
      and "try_body s token now = Inr I"
  shows "token_required f s req now now' = f I s req now'"
  using assms by (simp add: token_required_def)

text \<open>
  The theorem for \<open>create_event\<close> and a request with a token of \<open>admin\<close> that has not
  expired.
\<close>

theorem gate_returns_view_result_witness:
  "try_body startup (''Bearer '' @ user_token (SECRET_KEY startup) ''admin'' ''administrator''
      1705312200) 1705301400000000 = Inr (user_data ''admin'' ''administrator'') \<and>
   token_required create_event startup
     \<lparr>headers = [''Authorization'' \<mapsto>
          ''Bearer '' @ user_token (SECRET_KEY startup) ''admin'' ''administrator'' 1705312200],
      get_json = Inr (JObj [(''kind'', JStr ''SIGINT'')])\<rparr> 1705301400000000 1705301400000001 =
   create_event (user_data ''admin'' ''administrator'') startup
     \<lparr>headers = [''Authorization'' \<mapsto>
          ''Bearer '' @ user_token (SECRET_KEY startup) ''admin'' ''administrator'' 1705312200],
      get_json = Inr (JObj [(''kind'', JStr ''SIGINT'')])\<rparr> 1705301400000001"
proof -
  have t: "try_body startup (''Bearer '' @ user_token (SECRET_KEY startup) ''admin'' ''administrator''
      1705312200) 1705301400000000 = Inr (user_data ''admin'' ''administrator'')"
    by (simp add: try_body_bearer_user_token del: append.simps)
  show ?thesis
    using gate_returns_view_result [OF _ _ t, of
        "\<lparr>headers = [''Authorization'' \<mapsto>
          ''Bearer '' @ user_token (SECRET_KEY startup) ''admin'' ''administrator'' 1705312200],
         get_json = Inr (JObj [(''kind'', JStr ''SIGINT'')])\<rparr>" create_event 1705301400000001] t
    by simp
qed

text \<open>A signed and unexpired token whose payload has no \<open>user\<close>: \<open>{"exp": e}\<close>.\<close>

lemma json_loads_exp_only:
  "json_loads (json_dumps (JObj [(''exp'', JInt e)])) = Inr (JObj [(''exp'', JInt e)])"
proof -
  let ?p = "JObj [(''exp'', JInt e)]"
  have pr: "list_all printable (json_dumps ?p)"
    by (simp add: json_dumps_str_printable py_str_int_printable printable_literals)
  have ascii: "\<not> (\<exists>c \<in> set (json_dumps ?p). (of_char c :: nat) = 0 \<or> 128 \<le> (of_char c :: nat))"
    by (rule printable_ascii(2)) (rule pr)
  have ws: "skip_ws (json_dumps ?p) = json_dumps ?p"
    by (simp add: skip_ws_nonws is_ws_def)
  have len: "5 \<le> length (json_dumps ?p)"
    by (simp add: json_dumps_str_def)
  have scan: "scan_once (Suc (length (json_dumps ?p))) (json_dumps ?p) = Inr (?p, [])"
    by (intro scan_once_enough [OF len])
       (simp add: scan_simps skip_ws_int scan_once_int [OF ends_number_brace] del: scan_once.simps)
  show ?thesis
    unfolding json_loads_def using ascii by (simp only: if_False ws scan) (simp add: skip_ws_def)
qed

lemma try_body_exp_only:
  assumes "now < e * 1000000"
  shows "try_body s (jws_encode (json_dumps (JObj [(''exp'', JInt e)])) (SECRET_KEY s)) now =
         Inl KeyError"
proof -
  have sp: "CHR '' '' \<notin> set (jws_encode (json_dumps (JObj [(''exp'', JInt e)])) (SECRET_KEY s))"
    using base64url_encode_alphabet alphabet_ascii
    by (auto simp: jws_encode_shape signing_input_of_def)
  have d: "jwt_decode (jws_encode (json_dumps (JObj [(''exp'', JInt e)])) (SECRET_KEY s))
             (SECRET_KEY s) [''HS256''] now = Inr (JObj [(''exp'', JInt e)])"
    using assms
    by (simp add: jwt_decode_def jws_roundtrip json_loads_exp_only validate_claims_def
          validate_iat_def validate_nbf_def validate_exp_def validate_aud_def
          validate_sub_def validate_jti_def del: json_dumps.simps)
  show ?thesis
    by (simp add: try_body_def no_space_no_bearer [OF sp] d del: json_dumps.simps)
qed

text \<open>
  Claim C8. For every value of the \<open>Authorization\<close> header, whatever the \<open>try\<close> body
  raises (a failure of \<open>jwt.decode\<close> on any text, or the \<open>KeyError\<close> of \<open>data['user']\<close>
  for a valid token without a \<open>user\<close> claim) is caught and answered 401 with the message
  "Token is invalid!"; and an exception that leaves the gate was raised by the wrapped
  view, called after the \<open>try\<close> body had succeeded, never by the gate.
\<close>

theorem gate_catches_every_failure:
  assumes "headers req ''Authorization'' = Some token"
  shows "(\<forall>e. token \<noteq> [] \<and> try_body s token now = Inl e \<longrightarrow>
            token_required f s req now now' =
              (Inr \<lparr>status = 401, body = JObj [(''message'', JStr ''Token is invalid!'')]\<rparr>, s)) \<and>
         (\<forall>e. fst (token_required f s req now now') = Inl e \<longrightarrow>
            (\<exists>I. try_body s token now = Inr I \<and> fst (f I s req now') = Inl e))"
  using assms
  by (auto simp: token_required_def invalid_response_eq split: sum.splits)

text \<open>
  The theorem at the header \<open>abc\<close>, which is no token, and at a token that is signed
  with the secret key and has not expired but whose payload is \<open>{"exp": 1705312200}\<close>.
\<close>

theorem gate_catches_every_failure_witness:
  "try_body startup ''abc'' 0 = Inl DecodeError \<and>
   token_required create_event startup
       \<lparr>headers = [''Authorization'' \<mapsto> ''abc''], get_json = Inr JNull\<rparr> 0 0 =
     (Inr \<lparr>status = 401, body = JObj [(''message'', JStr ''Token is invalid!'')]\<rparr>, startup) \<and>
   try_body startup (jws_encode (json_dumps (JObj [(''exp'', JInt 1705312200)])) (SECRET_KEY startup))
       1705301400000000 = Inl KeyError \<and>
   token_required create_event startup
       \<lparr>headers = [''Authorization'' \<mapsto>
            jws_encode (json_dumps (JObj [(''exp'', JInt 1705312200)])) (SECRET_KEY startup)],
        get_json = Inr JNull\<rparr> 1705301400000000 1705301400000000 =
     (Inr \<lparr>status = 401, body = JObj [(''message'', JStr ''Token is invalid!'')]\<rparr>, startup)"
proof -
  let ?t = "jws_encode (json_dumps (JObj [(''exp'', JInt 1705312200)])) (SECRET_KEY startup)"
  have k: "try_body startup ?t 1705301400000000 = Inl KeyError"
    by (rule try_body_exp_only) simp
  have ne: "?t \<noteq> []"
    by (simp add: jws_encode_shape del: json_dumps.simps)
  show ?thesis
    using gate_catches_every_failure [of "\<lparr>headers = [''Authorization'' \<mapsto> ''abc''], get_json = Inr JNull\<rparr>"
            "''abc''" startup 0 create_event 0]
          gate_catches_every_failure [of "\<lparr>headers = [''Authorization'' \<mapsto> ?t], get_json = Inr JNull\<rparr>"
            ?t startup 1705301400000000 create_event 1705301400000000]
          try_body_abc [of startup 0] k ne
    by (simp del: json_dumps.simps)
qed

section \<open>The claim about roles\<close>

lemma user_token_nonempty: "user_token key u r e \<noteq> []"
  by (simp add: user_token_def jws_encode_shape)

lemma try_body_prefixed_user_token:
  assumes "p = [] \<or> p = ''Bearer ''"
  shows "try_body s (p @ user_token (SECRET_KEY s) u r e) now =
         (if e * 1000000 \<le> now then Inl ExpiredSignatureError else Inr (user_data u r))"
  using assms try_body_user_token [of s u r e now] try_body_bearer_user_token [of s u r e now]
  by (elim disjE) (simp_all only: append_Nil)

lemma gate_user_token:
  assumes "p = [] \<or> p = ''Bearer ''"
  shows "token_required f s (with_token req (p @ user_token (SECRET_KEY s) u r e)) now now' =
         (if e * 1000000 \<le> now then (Inr invalid_response, s)
          else f (user_data u r) s (with_token req (p @ user_token (SECRET_KEY s) u r e)) now')"
  by (simp add: token_required_def with_token_def user_token_nonempty
        try_body_prefixed_user_token [OF assms])

lemma protected_view_ignores_role:
  assumes "f \<in> set protected_views"
  shows "f (user_data u r) s (with_token req t) now = f (user_data u r') s (with_token req t') now"
  using assms
  by (auto simp: protected_views_def get_dashboard_def get_events_def get_correlations_def
        create_event_def user_data_def with_token_def split: sum.splits)

text \<open>
  Claim C10. Take two tokens signed with the secret key for the same username and the
  same expiry, one with the role \<open>r\<close> and one with the role \<open>r'\<close>, sent bare or after
  \<open>Bearer\<close> in otherwise equal requests. Every protected view answers the two requests in
  the same way: when the tokens have expired both get the 401 response of the gate, and
  when they have not, the gate calls the view for both and the view returns the same
  result for both. No protected view reads the role.
\<close>

theorem gate_ignores_role:
  assumes "f \<in> set protected_views" and "p = [] \<or> p = ''Bearer ''"
  shows "token_required f s (with_token req (p @ user_token (SECRET_KEY s) u r e)) now now' =
         token_required f s (with_token req (p @ user_token (SECRET_KEY s) u r' e)) now now' \<and>
         (now < e * 1000000 \<longrightarrow>
            token_required f s (with_token req (p @ user_token (SECRET_KEY s) u r e)) now now' =
              f (user_data u r) s (with_token req (p @ user_token (SECRET_KEY s) u r e)) now' \<and>
            token_required f s (with_token req (p @ user_token (SECRET_KEY s) u r' e)) now now' =
              f (user_data u r') s (with_token req (p @ user_token (SECRET_KEY s) u r' e)) now')"
  using protected_view_ignores_role [OF assms(1), of u r s req
          "p @ user_token (SECRET_KEY s) u r e" now' r' "p @ user_token (SECRET_KEY s) u r' e"]
  by (simp add: gate_user_token [OF assms(2)])

text \<open>
  The theorem for \<open>get_dashboard\<close> and the tokens of \<open>admin\<close> as administrator and as
  analyst, 3 hours before they expire: both requests get the dashboard.
\<close>

theorem gate_ignores_role_witness:
  "get_dashboard \<in> set protected_views \<and>
   token_required get_dashboard startup
       (with_token \<lparr>headers = Map.empty, get_json = Inr JNull\<rparr>
          (''Bearer '' @ user_token (SECRET_KEY startup) ''admin'' ''administrator'' 1705312200))
       1705301400000000 1705301400000000 =
     (Inr \<lparr>status = 200, body = JObj [(''total_events'', JInt 156), (''total_correlations'', JInt 42),
            (''sigint_events'', JInt 98), (''buas_events'', JInt 58), (''recent_events'', JInt 23)]\<rparr>,
      startup) \<and>
   token_required get_dashboard startup
       (with_token \<lparr>headers = Map.empty, get_json = Inr JNull\<rparr>
          (''Bearer '' @ user_token (SECRET_KEY startup) ''admin'' ''analyst'' 1705312200))
       1705301400000000 1705301400000000 =
     (Inr \<lparr>status = 200, body = JObj [(''total_events'', JInt 156), (''total_correlations'', JInt 42),
            (''sigint_events'', JInt 98), (''buas_events'', JInt 58), (''recent_events'', JInt 23)]\<rparr>,
      startup)"
proof -
  have v: "get_dashboard \<in> set protected_views" by (simp add: protected_views_def)
  show ?thesis
    using gate_ignores_role [OF v, of "''Bearer ''" startup "\<lparr>headers = Map.empty, get_json = Inr JNull\<rparr>"
            "''admin''" "''administrator''" 1705312200 1705301400000000 1705301400000000 "''analyst''"] v
    by (simp add: get_dashboard_def jsonify_def mk_dict_def dict_update_def)
qed

section \<open>The claim about expiry\<close>

lemma embedded_expE:
  assumes "embedded_exp token = Some e"
  obtains payload signing_input header signature kvs v where
    "jws_load token = Inr (payload, signing_input, header, signature)"
    "json_loads payload = Inr (JObj kvs)" "map_of kvs ''exp'' = Some v" "py_int v = Inr e"
  using assms
  by (auto simp: embedded_exp_def split: sum.splits json.splits option.splits)

lemma validate_exp_expired:
  assumes "map_of kvs ''exp'' = Some v" "py_int v = Inr e"
  shows "validate_exp kvs now = (if e * 1000000 \<le> now then Inl ExpiredSignatureError else Inr ())"
  using assms by (simp add: validate_exp_def)

lemma bind_exn_Inr_iff: "bind_exn m k = Inr y \<longleftrightarrow> (\<exists>x. m = Inr x \<and> k x = Inr y)"
  by (cases m) simp_all

lemma reraise_Inr_iff: "reraise caught e' m = Inr y \<longleftrightarrow> m = Inr y"
  by (cases m) simp_all

lemma validate_iat_later:
  assumes "validate_iat kvs now0 = Inr ()" "now0 \<le> now"
  shows "validate_iat kvs now = Inr ()"
proof (cases "map_of kvs ''iat''")
  case None
  then show ?thesis by (simp add: validate_iat_def)
next
  case (Some v)
  then obtain x where x: "py_int v = Inr x" and "\<not> now0 < x * 1000000"
    using assms(1)
    by (auto simp: validate_iat_def bind_exn_Inr_iff reraise_Inr_iff split: if_splits)
  then have "\<not> now < x * 1000000" using assms(2) by simp
  then show ?thesis by (simp add: validate_iat_def Some x)
qed

lemma validate_nbf_later:
  assumes "validate_nbf kvs now0 = Inr ()" "now0 \<le> now"
  shows "validate_nbf kvs now = Inr ()"
proof (cases "map_of kvs ''nbf''")
  case None
  then show ?thesis by (simp add: validate_nbf_def)
next
  case (Some v)
  then obtain x where x: "py_int v = Inr x" and "\<not> now0 < x * 1000000"
    using assms(1)
    by (auto simp: validate_nbf_def bind_exn_Inr_iff reraise_Inr_iff split: if_splits)
  then have "\<not> now < x * 1000000" using assms(2) by simp
  then show ?thesis by (simp add: validate_nbf_def Some x)
qed

lemma validate_claims_expired:
  assumes "map_of kvs ''exp'' = Some v" "py_int v = Inr e" "e * 1000000 \<le> now"
  shows "\<exists>x. validate_claims kvs now = Inl x"
    and "validate_claims kvs now0 = Inr () \<Longrightarrow> validate_claims kvs now = Inl ExpiredSignatureError"
proof -
  have x: "validate_exp kvs now = Inl ExpiredSignatureError"
    using assms by (simp add: validate_exp_expired)
  show "\<exists>x. validate_claims kvs now = Inl x"
    by (cases "validate_iat kvs now"; cases "validate_nbf kvs now")
       (simp_all add: validate_claims_def x)
  assume "validate_claims kvs now0 = Inr ()"
  then have i: "validate_iat kvs now0 = Inr ()" and n: "validate_nbf kvs now0 = Inr ()"
      and "validate_exp kvs now0 = Inr ()"
    by (auto simp: validate_claims_def bind_exn_Inr_iff)
  then have "now0 < e * 1000000"
    using assms(1,2) by (simp add: validate_exp_expired split: if_splits)
  then have "now0 \<le> now" using assms(3) by simp
  then show "validate_claims kvs now = Inl ExpiredSignatureError"
    using validate_iat_later [OF i] validate_nbf_later [OF n]
    by (simp add: validate_claims_def x)
qed

lemma jwt_decode_expired:
  assumes "embedded_exp token = Some e" "e * 1000000 \<le> now"
  shows "\<exists>x. jwt_decode token key algorithms now = Inl x"
    and "jwt_decode token key algorithms now0 = Inr payload \<Longrightarrow>
         jwt_decode token key algorithms now = Inl ExpiredSignatureError"
proof -
  from assms(1) obtain p si h sg kvs v where
    l: "jws_load token = Inr (p, si, h, sg)" and j: "json_loads p = Inr (JObj kvs)"
    and m: "map_of kvs ''exp'' = Some v" and i: "py_int v = Inr e"
    by (rule embedded_expE)
  have d: "jws_decode token key algorithms = Inr q \<Longrightarrow> q = p" for q
    by (auto simp: jws_decode_def l bind_exn_Inr_iff split: if_splits)
  obtain x where x: "validate_claims kvs now = Inl x"
    using validate_claims_expired(1) [OF m i assms(2)] by blast
  show "\<exists>x. jwt_decode token key algorithms now = Inl x"
  proof (cases "jws_decode token key algorithms")
    case (Inl a)
    then show ?thesis by (simp add: jwt_decode_def)
  next
    case (Inr q)
    then show ?thesis using d [OF Inr] by (simp add: jwt_decode_def j x)
  qed
  assume a: "jwt_decode token key algorithms now0 = Inr payload"
  then obtain q where q: "jws_decode token key algorithms = Inr q"
    by (auto simp: jwt_decode_def bind_exn_Inr_iff)
  then have qp: "q = p" by (rule d)
  have "validate_claims kvs now0 = Inr ()"
    using a by (simp add: jwt_decode_def q qp j bind_exn_Inr_iff)
  then have "validate_claims kvs now = Inl ExpiredSignatureError"
    by (rule validate_claims_expired(2) [OF m i assms(2)])
  then show "jwt_decode token key algorithms now = Inl ExpiredSignatureError"
    by (simp add: jwt_decode_def q qp j)
qed

lemma embedded_exp_user_token: "embedded_exp (user_token key u r e) = Some e"
proof -
  have "json_loads (json_dumps (user_payload u r e)) = Inr (user_payload u r e)"
    by (simp only: user_payload_unfold json_loads_payload)
  then show ?thesis
    by (simp add: embedded_exp_def user_token_def jws_load_encode)
       (simp add: user_payload_def)
qed

lemma try_body_expired:
  assumes "embedded_exp token = Some e" "e * 1000000 \<le> now"
      and "p = ''Bearer '' \<or> p = [] \<and> \<not> starts_with token ''Bearer ''"
  shows "\<exists>x. try_body s (p @ token) now = Inl x"
proof -
  obtain x where x: "jwt_decode token (SECRET_KEY s) [''HS256''] now = Inl x"
    using jwt_decode_expired(1) [OF assms(1,2)] by blast
  from assms(3) show ?thesis
  proof
    assume "p = ''Bearer ''"
    then show ?thesis by (simp add: try_body_def starts_with_def x)
  next
    assume "p = [] \<and> \<not> starts_with token ''Bearer ''"
    then show ?thesis by (simp add: try_body_def x)
  qed
qed

lemma embedded_exp_nonempty: "embedded_exp token = Some e \<Longrightarrow> token \<noteq> []"
  by (auto simp: embedded_exp_def jws_load_def rsplit1_def split1_def utf8_encode_def)

lemma gate_expired:
  assumes "embedded_exp token = Some e" "e * 1000000 \<le> now"
      and "p = ''Bearer '' \<or> p = [] \<and> \<not> starts_with token ''Bearer ''"
  shows "token_required f s (with_token req (p @ token)) now now' =
         (Inr \<lparr>status = 401, body = JObj [(''message'', JStr ''Token is invalid!'')]\<rparr>, s)"
proof -
  obtain x where "try_body s (p @ token) now = Inl x"
    using try_body_expired [OF assms] by blast
  then show ?thesis
    using embedded_exp_nonempty [OF assms(1)]
    by (simp add: token_required_def with_token_def invalid_response_eq)
qed

lemma issued_token_expired:
  assumes "datetime_add t0 (timedelta_hours 24) = Inr exp" "t0 + timedelta_hours 24 \<le> now"
  shows "jwt_decode (user_token key u r (timegm exp)) key [''HS256''] now = Inl ExpiredSignatureError"
proof -
  have "exp = t0 + timedelta_hours 24"
    using assms(1) by (simp add: datetime_add_def split: if_splits)
  moreover have "timegm exp * 1000000 \<le> exp"
    by (simp add: timegm_def)
  ultimately have "timegm exp * 1000000 \<le> now" using assms(2) by simp
  then show ?thesis by (simp add: jwt_decode_user_token)
qed

text \<open>
  Claim C6. Let \<open>e\<close> be the expiry embedded in a token, in seconds, and let the clock
  read \<open>e\<close> or later. Then \<open>jwt.decode\<close> raises, whatever the key; when the token is
  otherwise acceptable (it decodes at some other time) what it raises is
  \<open>ExpiredSignatureError\<close>; and the gate answers the token, bare or after \<open>Bearer\<close>,
  with 401 and the message "Token is invalid!". For the token that \<open>login\<close> issues at
  the time \<open>t0\<close> the embedded expiry is \<open>t0\<close> plus 24 hours in whole seconds, so this
  token is refused as expired once 24 hours have passed since \<open>t0\<close>.
\<close>

theorem expired_token_rejected:
  "(embedded_exp token = Some e \<and> e * 1000000 \<le> now \<longrightarrow>
      (\<exists>x. jwt_decode token key [''HS256''] now = Inl x) \<and>
      (\<forall>now0 payload. jwt_decode token key [''HS256''] now0 = Inr payload \<longrightarrow>
         jwt_decode token key [''HS256''] now = Inl ExpiredSignatureError) \<and>
      (p = ''Bearer '' \<or> p = [] \<and> \<not> starts_with token ''Bearer '' \<longrightarrow>
         token_required f s (with_token req (p @ token)) now now' =
           (Inr \<lparr>status = 401, body = JObj [(''message'', JStr ''Token is invalid!'')]\<rparr>, s))) \<and>
   (datetime_add t0 (timedelta_hours 24) = Inr exp \<and> t0 + timedelta_hours 24 \<le> now \<longrightarrow>
      jwt_encode [(''user'', Value (user_data u r)), (''exp'', Datetime exp)] key =
        Inr (user_token key u r (timegm exp)) \<and>
      embedded_exp (user_token key u r (timegm exp)) = Some (timegm exp) \<and>
      jwt_decode (user_token key u r (timegm exp)) key [''HS256''] now = Inl ExpiredSignatureError)"
  using jwt_decode_expired [of token e now key "[''HS256'']"]
        gate_expired [of token e now p f s req now']
        issued_token_expired [of t0 exp now key u r]
  by (simp add: jwt_encode_user embedded_exp_user_token)

text \<open>
  The theorem for the token of \<open>admin\<close> issued on 2024-01-14 at 09:50:00 UTC, read
  exactly 24 hours later: one microsecond earlier it still decodes.
\<close>

theorem expired_token_rejected_witness:
  "datetime_add 1705225800000000 (timedelta_hours 24) = Inr 1705312200000000 \<and>
   timegm 1705312200000000 = 1705312200 \<and>
   embedded_exp (user_token (SECRET_KEY startup) ''admin'' ''administrator'' 1705312200) =
     Some 1705312200 \<and>
   jwt_decode (user_token (SECRET_KEY startup) ''admin'' ''administrator'' 1705312200)
     (SECRET_KEY startup) [''HS256''] 1705312199999999 =
     Inr (user_payload ''admin'' ''administrator'' 1705312200) \<and>
   jwt_decode (user_token (SECRET_KEY startup) ''admin'' ''administrator'' 1705312200)
     (SECRET_KEY startup) [''HS256''] 1705312200000000 = Inl ExpiredSignatureError \<and>
   token_required get_dashboard startup
     (with_token \<lparr>headers = Map.empty, get_json = Inr JNull\<rparr>
        (''Bearer '' @ user_token (SECRET_KEY startup) ''admin'' ''administrator'' 1705312200))
     1705312200000000 1705312200000000 =
     (Inr \<lparr>status = 401, body = JObj [(''message'', JStr ''Token is invalid!'')]\<rparr>, startup)"
proof -
  let ?t = "user_token (SECRET_KEY startup) ''admin'' ''administrator'' 1705312200"
  have d: "datetime_add 1705225800000000 (timedelta_hours 24) = Inr 1705312200000000"
    by (simp add: datetime_add_def timedelta_hours_def datetime_max_def)
  have g: "timegm 1705312200000000 = 1705312200"
    by (simp add: timegm_def)
  have e: "embedded_exp ?t = Some 1705312200"
    by (rule embedded_exp_user_token)
  have b: "jwt_decode ?t (SECRET_KEY startup) [''HS256''] 1705312199999999 =
           Inr (user_payload ''admin'' ''administrator'' 1705312200)"
    by (simp add: jwt_decode_user_token)
  show ?thesis
    using expired_token_rejected [of ?t 1705312200 1705312200000000 "SECRET_KEY startup"
            "''Bearer ''" get_dashboard startup "\<lparr>headers = Map.empty, get_json = Inr JNull\<rparr>"
            1705312200000000 1705225800000000 1705312200000000 "''admin''" "''administrator''"]
          d g e b
    by (simp add: timedelta_hours_def del: append.simps)
qed

section \<open>The end of the validity window\<close>

text \<open>
  The claim as the specification words it, with the window ending 24 hours after the
  issue, fails: the token of \<open>admin\<close> issued on 2024-01-14 at 09:50:00.9 UTC carries the
  expiry 09:50:00 of the next day, and half a second before the 24 hours are over, at
  09:50:00.4, \<open>jwt.decode\<close> raises \<open>ExpiredSignatureError\<close> and the gate answers 401.
\<close>

theorem validity_window_counterexample:
  "datetime_add 1705225800900000 (timedelta_hours 24) = Inr 1705312200900000 \<and>
   jwt_encode [(''user'', Value (user_data ''admin'' ''administrator'')),
               (''exp'', Datetime 1705312200900000)] (SECRET_KEY startup) =
     Inr (user_token (SECRET_KEY startup) ''admin'' ''administrator'' 1705312200) \<and>
   (1705312200400000 :: int) < 1705312200900000 \<and>
   jwt_decode (user_token (SECRET_KEY startup) ''admin'' ''administrator'' 1705312200)
     (SECRET_KEY startup) [''HS256''] 1705312200400000 = Inl ExpiredSignatureError \<and>
   try_body startup (user_token (SECRET_KEY startup) ''admin'' ''administrator'' 1705312200)
     1705312200400000 = Inl ExpiredSignatureError \<and>
   token_required get_dashboard startup
     (with_token \<lparr>headers = Map.empty, get_json = Inr JNull\<rparr>
        (''Bearer '' @ user_token (SECRET_KEY startup) ''admin'' ''administrator'' 1705312200))
     1705312200400000 1705312200400000 =
     (Inr \<lparr>status = 401, body = JObj [(''message'', JStr ''Token is invalid!'')]\<rparr>, startup)"
proof -
  have g: "timegm 1705312200900000 = 1705312200"
    by (simp add: timegm_def)
  have "jwt_encode [(''user'', Value (user_data ''admin'' ''administrator'')),
               (''exp'', Datetime 1705312200900000)] (SECRET_KEY startup) =
        Inr (user_token (SECRET_KEY startup) ''admin'' ''administrator'' (timegm 1705312200900000))"
    by (rule jwt_encode_user)
  then have e: "jwt_encode [(''user'', Value (user_data ''admin'' ''administrator'')),
               (''exp'', Datetime 1705312200900000)] (SECRET_KEY startup) =
        Inr (user_token (SECRET_KEY startup) ''admin'' ''administrator'' 1705312200)"
    by (simp only: g)
  have d: "datetime_add 1705225800900000 (timedelta_hours 24) = Inr 1705312200900000"
    by (simp add: datetime_add_def timedelta_hours_def datetime_max_def)
  have t: "token_required get_dashboard startup
     (with_token \<lparr>headers = Map.empty, get_json = Inr JNull\<rparr>
        (''Bearer '' @ user_token (SECRET_KEY startup) ''admin'' ''administrator'' 1705312200))
     1705312200400000 1705312200400000 =
     (Inr \<lparr>status = 401, body = JObj [(''message'', JStr ''Token is invalid!'')]\<rparr>, startup)"
    using gate_user_token [where p = "''Bearer ''" and f = get_dashboard and s = startup
            and u = "''admin''" and r = "''administrator''" and e = 1705312200
            and now = 1705312200400000]
    by (simp add: invalid_response_eq del: append.simps)
  show ?thesis
    using d e t by (simp add: jwt_decode_user_token try_body_user_token del: append.simps)
qed

section \<open>A changed signature\<close>




























end
